theory Spec2Isabelle
  imports Complex_Main
begin

section \<open>Round outcome (HandDetector.tsx, game version)\<close>

text \<open>
  \<^verbatim>\<open>GESTURES = ["rock", "paper", "scissors", "lizard", "spock"] as const\<close> and
  \<^verbatim>\<open>type Gesture = typeof GESTURES[number]\<close>: a union of five string literals, modelled as
  a datatype. The result type of \<^verbatim>\<open>decideOutcome\<close>,
  \<^verbatim>\<open>"player" | "computer" | "tie"\<close>, is a datatype as well.
\<close>

datatype Gesture = Rock | Paper | Scissors | Lizard | Spock

datatype Outcome = Player | Computer | Tie

definition GESTURES :: "Gesture list" where
  "GESTURES = [Rock, Paper, Scissors, Lizard, Spock]"

fun WIN_MAP :: "Gesture \<Rightarrow> Gesture list" where
  "WIN_MAP Rock = [Scissors, Lizard]"
| "WIN_MAP Paper = [Rock, Spock]"
| "WIN_MAP Scissors = [Paper, Lizard]"
| "WIN_MAP Lizard = [Spock, Paper]"
| "WIN_MAP Spock = [Scissors, Rock]"

definition decideOutcome :: "Gesture \<Rightarrow> Gesture \<Rightarrow> Outcome" where
  "decideOutcome player computer =
     (if player = computer then Tie
      else if computer \<in> set (WIN_MAP player) then Player else Computer)"

section \<open>Temporal stabilizer (stableGesture, identical in both HandDetector versions)\<close>

text \<open>
  Errors of the JavaScript runtime that the modelled code can raise: reading a property of
  \<^verbatim>\<open>undefined\<close>.
\<close>

datatype error = TypeError

text \<open>
  \<^verbatim>\<open>freq: Record<string, number>\<close> is a plain object. Its own string keys are kept in the
  order of their creation, and assigning to an existing key keeps the key's place, so the
  object is an association list. \<^verbatim>\<open>freq[l] = (freq[l] || 0) + 1\<close> is \<open>freq_incr\<close>.
  This is the behaviour for a key that \<^verbatim>\<open>Object.prototype\<close> does not define. A key that it
  defines reads the inherited member in \<^verbatim>\<open>freq[l] || 0\<close>: for \<^verbatim>\<open>constructor\<close> the count becomes
  a string, and for \<^verbatim>\<open>__proto__\<close> no own key is created at all. The model does not cover such
  keys; no label of the classifier is one, and the statements about the stabilizer are
  about the labels of the classifier (\<open>LABELS\<close>).
\<close>

type_synonym freq = "(string \<times> nat) list"

fun freq_incr :: "string \<Rightarrow> freq \<Rightarrow> freq" where
  "freq_incr l [] = [(l, 1)]"
| "freq_incr l ((k, c) # kvs) =
     (if k = l then (k, c + 1) # kvs else (k, c) # freq_incr l kvs)"

text \<open>\<^verbatim>\<open>for (const l of bufferRef.current) freq[l] = (freq[l] || 0) + 1\<close>\<close>

definition tally :: "string list \<Rightarrow> freq" where
  "tally buf = fold freq_incr buf []"

text \<open>
  \<^verbatim>\<open>Object.entries\<close> lists the own keys that are array indices (canonical decimal
  numerals below \<open>2^32 - 1\<close>) first, in ascending numeric order, and then every other
  string key in the order of creation.
\<close>

definition is_digit :: "char \<Rightarrow> bool" where
  "is_digit c \<longleftrightarrow> c \<in> set ''0123456789''"

definition digits_value :: "string \<Rightarrow> nat" where
  "digits_value s = foldl (\<lambda>n c. 10 * n + (of_char c - 48)) 0 s"

definition is_array_index :: "string \<Rightarrow> bool" where
  "is_array_index s \<longleftrightarrow>
     s \<noteq> [] \<and> list_all is_digit s \<and> (s = ''0'' \<or> hd s \<noteq> CHR ''0'')
     \<and> digits_value s < 4294967295"

definition Object_entries :: "freq \<Rightarrow> (string \<times> nat) list" where
  "Object_entries obj =
     sort_key (\<lambda>e. digits_value (fst e)) (filter (\<lambda>e. is_array_index (fst e)) obj)
     @ filter (\<lambda>e. \<not> is_array_index (fst e)) obj"

text \<open>
  \<^verbatim>\<open>.sort((a,b) => b[1]-a[1])\<close>: descending by count. \<^verbatim>\<open>Array.prototype.sort\<close> is
  stable, as is \<open>sort_key\<close> (insertion sort), so entries of equal count keep their order.
\<close>

definition sort_by_count_desc :: "(string \<times> nat) list \<Rightarrow> (string \<times> nat) list" where
  "sort_by_count_desc es = sort_key (\<lambda>e. - int (snd e)) es"

text \<open>
  \<^verbatim>\<open>bufferRef.current.push(label); if (bufferRef.current.length > n) bufferRef.current.shift();\<close>
  One push removes at most one element.
\<close>

definition push_shift :: "string \<Rightarrow> nat \<Rightarrow> string list \<Rightarrow> string list" where
  "push_shift label n buf =
     (let b = buf @ [label] in if length b > n then tl b else b)"

text \<open>
  \<^verbatim>\<open>Object.entries(freq).sort((a,b) => b[1]-a[1])[0][0]\<close>: the key of the first entry
  after sorting. On an empty list of entries \<^verbatim>\<open>[0]\<close> is \<^verbatim>\<open>undefined\<close> and \<^verbatim>\<open>[0][0]\<close>
  throws.
\<close>

definition most_frequent :: "string list \<Rightarrow> error + string" where
  "most_frequent b =
     (case sort_by_count_desc (Object_entries (tally b)) of
        [] \<Rightarrow> Inl TypeError
      | e # _ \<Rightarrow> Inr (fst e))"

text \<open>
  The buffer \<^verbatim>\<open>bufferRef.current\<close> is the state: \<open>stableGesture\<close> takes it and returns it
  updated, next to the result. The default of \<^verbatim>\<open>n\<close> is 5, and both callers use the
  default; the buffer is empty after the push only for \<open>n = 0\<close>.
\<close>

definition stableGesture :: "string \<Rightarrow> nat \<Rightarrow> string list \<Rightarrow> (error + string) \<times> string list" where
  "stableGesture label n buf =
     (let b = push_shift label n buf in (most_frequent b, b))"

text \<open>
  A sequence of calls on one buffer, as the frame loop makes them: the results in call
  order, and the final buffer.
\<close>

fun pushes :: "string list \<Rightarrow> nat \<Rightarrow> string list \<Rightarrow> (error + string) list \<times> string list" where
  "pushes [] n buf = ([], buf)"
| "pushes (l # ls) n buf =
     (let (r, b) = stableGesture l n buf; (rs, b') = pushes ls n b in (r # rs, b'))"

text \<open>The closed set of labels that \<^verbatim>\<open>classifySign\<close> returns.\<close>

definition LABELS :: "string list" where
  "LABELS = [''rock'', ''paper'', ''scissors'', ''lizard'', ''spock'', ''unknown'']"

text \<open>
  The distinct elements of a list in the order of their first occurrence: the order in
  which \<open>tally\<close> creates the keys of \<^verbatim>\<open>freq\<close>.
\<close>

fun first_seen :: "'a list \<Rightarrow> 'a list" where
  "first_seen [] = []"
| "first_seen (x # xs) = x # filter (\<lambda>y. y \<noteq> x) (first_seen xs)"

section \<open>Sign classifier (classifySign.ts)\<close>

text \<open>
  \<^verbatim>\<open>NormalizedLandmark\<close> comes from the MediaPipe library; \<^verbatim>\<open>classifySign\<close> reads its fields
  \<^verbatim>\<open>x\<close> and \<^verbatim>\<open>y\<close> only. The source computes with IEEE doubles; the model computes with
  real numbers, so it describes the formulas in exact arithmetic (no rounding, no NaN).
\<close>

record NormalizedLandmark =
  lm_x :: real
  lm_y :: real

record SignMetrics =
  gapIM :: real
  gapMR :: real
  gapRP :: real
  spockRatio :: real
  cv :: real
  thumbToIndexMCP :: real
  thumbOut :: bool
  thumbAlong :: bool
  indexExt :: bool
  middleExt :: bool
  ringExt :: bool
  pinkyExt :: bool
  extendedCount :: nat
  cosIM :: real

text \<open>\<^verbatim>\<open>clamp = (v, a, b) => Math.max(a, Math.min(b, v))\<close>, and \<^verbatim>\<open>Math.hypot\<close> of two arguments.\<close>

definition clamp :: "real \<Rightarrow> real \<Rightarrow> real \<Rightarrow> real" where
  "clamp v a b = max a (min b v)"

definition hypot :: "real \<Rightarrow> real \<Rightarrow> real" where
  "hypot a b = sqrt (a * a + b * b)"

text \<open>The literal \<^verbatim>\<open>1e-6\<close> that floors every denominator.\<close>

definition eps :: real where
  "eps = 1 / 1000000"

text \<open>The landmark indices \<^verbatim>\<open>WRIST\<close>, \<^verbatim>\<open>TIP\<close>, \<^verbatim>\<open>PIP\<close> and \<^verbatim>\<open>INDEX_MCP\<close>.\<close>

definition WRIST :: nat where "WRIST = 0"
definition TIP_i :: nat where "TIP_i = 8"
definition TIP_m :: nat where "TIP_m = 12"
definition TIP_r :: nat where "TIP_r = 16"
definition TIP_p :: nat where "TIP_p = 20"
definition TIP_t :: nat where "TIP_t = 4"
definition PIP_i :: nat where "PIP_i = 6"
definition PIP_m :: nat where "PIP_m = 10"
definition PIP_r :: nat where "PIP_r = 14"
definition PIP_p :: nat where "PIP_p = 18"
definition INDEX_MCP :: nat where "INDEX_MCP = 5"

text \<open>
  \<^verbatim>\<open>dist(a, b)\<close>. The indices are in range wherever \<open>classifySign\<close> calls it: a pose of
  fewer than 21 landmarks is rejected first (see \<open>classifySign\<close>).
\<close>

definition dist_lm :: "NormalizedLandmark list \<Rightarrow> nat \<Rightarrow> nat \<Rightarrow> real" where
  "dist_lm landmarks a b =
     hypot (lm_x (landmarks ! a) - lm_x (landmarks ! b))
           (lm_y (landmarks ! a) - lm_y (landmarks ! b))"

text \<open>
  The bounding box. \<^verbatim>\<open>minX\<close> and \<^verbatim>\<open>minY\<close> start at \<^verbatim>\<open>Infinity\<close>, \<^verbatim>\<open>maxX\<close> and \<^verbatim>\<open>maxY\<close> at
  \<^verbatim>\<open>-Infinity\<close>: \<open>None\<close> is the infinite start value, which every coordinate replaces.
  The loop updates the four variables independently of each other.
\<close>

fun lower :: "real \<Rightarrow> real option \<Rightarrow> real option" where
  "lower v None = Some v"
| "lower v (Some m) = (if v < m then Some v else Some m)"

fun upper :: "real \<Rightarrow> real option \<Rightarrow> real option" where
  "upper v None = Some v"
| "upper v (Some m) = (if v > m then Some v else Some m)"

definition minX :: "NormalizedLandmark list \<Rightarrow> real option" where
  "minX landmarks = fold (\<lambda>lm m. lower (lm_x lm) m) landmarks None"

definition maxX :: "NormalizedLandmark list \<Rightarrow> real option" where
  "maxX landmarks = fold (\<lambda>lm m. upper (lm_x lm) m) landmarks None"

definition minY :: "NormalizedLandmark list \<Rightarrow> real option" where
  "minY landmarks = fold (\<lambda>lm m. lower (lm_y lm) m) landmarks None"

definition maxY :: "NormalizedLandmark list \<Rightarrow> real option" where
  "maxY landmarks = fold (\<lambda>lm m. upper (lm_y lm) m) landmarks None"

text \<open>
  \<^verbatim>\<open>Math.max(maxX - minX, 1e-6)\<close>. On the start values the difference is \<^verbatim>\<open>-Infinity\<close> and
  the maximum is \<^verbatim>\<open>1e-6\<close>.
\<close>

fun extent :: "real option \<Rightarrow> real option \<Rightarrow> real" where
  "extent (Some hi) (Some lo) = max (hi - lo) eps"
| "extent _ _ = eps"

definition scale :: "NormalizedLandmark list \<Rightarrow> real" where
  "scale landmarks =
     hypot (extent (maxX landmarks) (minX landmarks)) (extent (maxY landmarks) (minY landmarks))"

text \<open>\<^verbatim>\<open>norm = (v) => v / scale\<close>\<close>

definition norm_scaled :: "NormalizedLandmark list \<Rightarrow> real \<Rightarrow> real" where
  "norm_scaled landmarks v = v / scale landmarks"

definition fartherThan :: "NormalizedLandmark list \<Rightarrow> nat \<Rightarrow> nat \<Rightarrow> bool" where
  "fartherThan landmarks tip pip \<longleftrightarrow>
     norm_scaled landmarks (dist_lm landmarks tip WRIST - dist_lm landmarks pip WRIST) > 7 / 100"

definition bent :: "NormalizedLandmark list \<Rightarrow> nat \<Rightarrow> nat \<Rightarrow> bool" where
  "bent landmarks tip pip \<longleftrightarrow>
     norm_scaled landmarks (dist_lm landmarks tip WRIST - dist_lm landmarks pip WRIST) < 3 / 100"

text \<open>
  The paper uniformity: \<^verbatim>\<open>mean\<close>, \<^verbatim>\<open>stdev\<close> and \<^verbatim>\<open>cv = mean > 0 ? stdev / mean : 1\<close>.
\<close>

definition mean_gap :: "real \<Rightarrow> real \<Rightarrow> real \<Rightarrow> real" where
  "mean_gap gIM gMR gRP = (gIM + gMR + gRP) / 3"

definition cv_of :: "real \<Rightarrow> real \<Rightarrow> real \<Rightarrow> real" where
  "cv_of gIM gMR gRP =
     (let mean = mean_gap gIM gMR gRP;
          stdev = sqrt (((gIM - mean)\<^sup>2 + (gMR - mean)\<^sup>2 + (gRP - mean)\<^sup>2) / 3)
      in if mean > 0 then stdev / mean else 1)"

text \<open>
  \<^verbatim>\<open>pairAvg = (gapIM + gapRP) / 2\<close> and the denominator \<^verbatim>\<open>Math.max(1e-6, pairAvg)\<close> of
  \<^verbatim>\<open>spockRatio\<close>.
\<close>

definition pairAvg_floor :: "real \<Rightarrow> real \<Rightarrow> real" where
  "pairAvg_floor gIM gRP = max eps ((gIM + gRP) / 2)"

text \<open>
  The direction \<^verbatim>\<open>v(tip, pip)\<close>: \<^verbatim>\<open>len = Math.hypot(dx, dy) || 1e-6\<close> takes \<^verbatim>\<open>1e-6\<close> when the
  length is 0.
\<close>

definition v_len :: "NormalizedLandmark list \<Rightarrow> nat \<Rightarrow> nat \<Rightarrow> real" where
  "v_len landmarks tip pip =
     (let h = hypot (lm_x (landmarks ! tip) - lm_x (landmarks ! pip))
                    (lm_y (landmarks ! tip) - lm_y (landmarks ! pip))
      in if h = 0 then eps else h)"

definition v_dir :: "NormalizedLandmark list \<Rightarrow> nat \<Rightarrow> nat \<Rightarrow> real \<times> real" where
  "v_dir landmarks tip pip =
     ((lm_x (landmarks ! tip) - lm_x (landmarks ! pip)) / v_len landmarks tip pip,
      (lm_y (landmarks ! tip) - lm_y (landmarks ! pip)) / v_len landmarks tip pip)"

text \<open>The metrics bundle, in the order in which \<^verbatim>\<open>classifySign\<close> computes it.\<close>

definition compute_metrics :: "NormalizedLandmark list \<Rightarrow> SignMetrics" where
  "compute_metrics landmarks =
     (let indexExt' = fartherThan landmarks TIP_i PIP_i;
          middleExt' = fartherThan landmarks TIP_m PIP_m;
          ringExt' = fartherThan landmarks TIP_r PIP_r;
          pinkyExt' = fartherThan landmarks TIP_p PIP_p;
          extendedCount' = of_bool indexExt' + of_bool middleExt' + of_bool ringExt' + of_bool pinkyExt';
          thumbToIndexMCP' = norm_scaled landmarks (dist_lm landmarks TIP_t INDEX_MCP);
          gapIM' = norm_scaled landmarks (dist_lm landmarks TIP_i TIP_m);
          gapMR' = norm_scaled landmarks (dist_lm landmarks TIP_m TIP_r);
          gapRP' = norm_scaled landmarks (dist_lm landmarks TIP_r TIP_p);
          vi = v_dir landmarks TIP_i PIP_i;
          vm = v_dir landmarks TIP_m PIP_m
      in \<lparr> gapIM = gapIM', gapMR = gapMR', gapRP = gapRP',
           spockRatio = gapMR' / pairAvg_floor gapIM' gapRP',
           cv = cv_of gapIM' gapMR' gapRP',
           thumbToIndexMCP = thumbToIndexMCP',
           thumbOut = (thumbToIndexMCP' > 34 / 100),
           thumbAlong = (thumbToIndexMCP' < 28 / 100),
           indexExt = indexExt', middleExt = middleExt', ringExt = ringExt', pinkyExt = pinkyExt',
           extendedCount = extendedCount',
           cosIM = clamp (fst vi * fst vm + snd vi * snd vm) (-1) 1 \<rparr>)"

text \<open>The threshold table \<^verbatim>\<open>T\<close>.\<close>

definition T_scissorsIMMaxGap :: real where "T_scissorsIMMaxGap = 28 / 100"
definition T_scissorsCosMin :: real where "T_scissorsCosMin = 80 / 100"
definition T_paperCV :: real where "T_paperCV = 22 / 100"
definition T_spockRatio :: real where "T_spockRatio = 16 / 10"
definition T_spockGapMR :: real where "T_spockGapMR = 23 / 100"
definition T_pairTight :: real where "T_pairTight = 24 / 100"

text \<open>
  The conditions of the decision list, one per \<^verbatim>\<open>if\<close> of the source and in its order. The
  source tests its local variables, whose values are the fields of the metrics bundle;
  \<^verbatim>\<open>bent\<close> is computed from the landmarks and is not part of the bundle.
\<close>

definition rule_scissors :: "NormalizedLandmark list \<Rightarrow> SignMetrics \<Rightarrow> bool" where
  "rule_scissors landmarks m \<longleftrightarrow>
     indexExt m \<and> middleExt m \<and> \<not> ringExt m \<and> \<not> pinkyExt m \<and>
     bent landmarks TIP_r PIP_r \<and> bent landmarks TIP_p PIP_p \<and>
     gapIM m \<le> T_scissorsIMMaxGap \<and> cosIM m \<ge> T_scissorsCosMin"

definition rule_spock :: "SignMetrics \<Rightarrow> bool" where
  "rule_spock m \<longleftrightarrow>
     extendedCount m = 4 \<and> spockRatio m > T_spockRatio \<and>
     gapIM m < T_pairTight \<and> gapRP m < T_pairTight \<and>
     gapMR m > T_spockGapMR \<and> thumbOut m"

definition rule_paper :: "SignMetrics \<Rightarrow> bool" where
  "rule_paper m \<longleftrightarrow>
     extendedCount m = 4 \<and> cv m < T_paperCV \<and> spockRatio m \<le> T_spockRatio \<and> thumbAlong m"

definition rule_rock :: "SignMetrics \<Rightarrow> bool" where
  "rule_rock m \<longleftrightarrow> extendedCount m \<le> 1 \<and> \<not> thumbOut m"

definition rule_lizard :: "SignMetrics \<Rightarrow> bool" where
  "rule_lizard m \<longleftrightarrow> thumbOut m \<and> \<not> middleExt m \<and> \<not> ringExt m \<and> (indexExt m \<or> pinkyExt m)"

definition tie_spock :: "SignMetrics \<Rightarrow> bool" where
  "tie_spock m \<longleftrightarrow>
     extendedCount m = 4 \<and> thumbOut m \<and> spockRatio m > 135 / 100 \<and> gapMR m > 20 / 100"

definition tie_lizard :: "SignMetrics \<Rightarrow> bool" where
  "tie_lizard m \<longleftrightarrow> extendedCount m \<le> 2 \<and> thumbOut m"

definition decide :: "NormalizedLandmark list \<Rightarrow> SignMetrics \<Rightarrow> string" where
  "decide landmarks m =
     (if rule_scissors landmarks m then ''scissors''
      else if rule_spock m then ''spock''
      else if rule_paper m then ''paper''
      else if rule_rock m then ''rock''
      else if rule_lizard m then ''lizard''
      else if tie_spock m then ''spock''
      else if tie_lizard m then ''lizard''
      else ''unknown'')"

text \<open>
  \<^verbatim>\<open>classifySign\<close>. Every call reads \<^verbatim>\<open>landmarks[20].x\<close> (for \<^verbatim>\<open>pinkyExt\<close>) and no index
  above 20, and reading a field of \<^verbatim>\<open>undefined\<close> throws a TypeError: the call fails exactly
  on a pose of fewer than 21 landmarks.
\<close>

definition classifySign :: "NormalizedLandmark list \<Rightarrow> error + (string \<times> SignMetrics)" where
  "classifySign landmarks =
     (if length landmarks < 21 then Inl TypeError
      else let metrics = compute_metrics landmarks in Inr (decide landmarks metrics, metrics))"

text \<open>
  Translation by \<open>(tx, ty)\<close> after a uniform scaling by \<open>k\<close>, and the extent of the
  axis-aligned bounding box of a pose in each axis, for the statement of the invariance.
\<close>

definition transform :: "real \<Rightarrow> real \<Rightarrow> real \<Rightarrow> NormalizedLandmark \<Rightarrow> NormalizedLandmark" where
  "transform k tx ty lm = \<lparr> lm_x = k * lm_x lm + tx, lm_y = k * lm_y lm + ty \<rparr>"

definition bbox_width :: "NormalizedLandmark list \<Rightarrow> real" where
  "bbox_width landmarks = Max (set (map lm_x landmarks)) - Min (set (map lm_x landmarks))"

definition bbox_height :: "NormalizedLandmark list \<Rightarrow> real" where
  "bbox_height landmarks = Max (set (map lm_y landmarks)) - Min (set (map lm_y landmarks))"

text \<open>
  Concrete poses. \<open>pt\<close> builds a landmark. In \<open>pose_scissors\<close> index and middle point up
  side by side and the thumb is far out; in \<open>pose_two_fingers\<close> index and pinky are
  extended and the thumb tip is at distance 0.32 from the index knuckle; \<open>pose_point\<close> has
  all 21 landmarks at one point; in \<open>pose_fist\<close> no finger is extended and the thumb tip
  is at distance 0.32. All but \<open>pose_point\<close> have a bounding box of 0.6 by 0.8, of
  diagonal 1.
\<close>

definition pt :: "real \<Rightarrow> real \<Rightarrow> NormalizedLandmark" where
  "pt a b = \<lparr> lm_x = a, lm_y = b \<rparr>"

definition pose_scissors :: "NormalizedLandmark list" where
  "pose_scissors =
     [pt 0 0, pt 0 0, pt 0 0, pt 0 0, pt (3/5) 0,
      pt 0 0, pt 0 (2/5), pt 0 0, pt 0 (4/5),
      pt 0 0, pt 0 (2/5), pt 0 0, pt 0 (4/5),
      pt 0 0, pt 0 0, pt 0 0, pt 0 0,
      pt 0 0, pt 0 0, pt 0 0, pt 0 0]"

definition pose_two_fingers :: "NormalizedLandmark list" where
  "pose_two_fingers =
     [pt 0 0, pt 0 0, pt 0 0, pt 0 0, pt 0 (8/25),
      pt 0 0, pt 0 (2/5), pt 0 0, pt 0 (4/5),
      pt 0 0, pt 0 0, pt 0 0, pt 0 0,
      pt 0 0, pt 0 0, pt 0 0, pt 0 0,
      pt 0 0, pt (3/10) 0, pt 0 0, pt (3/5) 0]"

definition pose_point :: "NormalizedLandmark list" where
  "pose_point =
     [pt (1/2) (1/2), pt (1/2) (1/2), pt (1/2) (1/2), pt (1/2) (1/2), pt (1/2) (1/2),
      pt (1/2) (1/2), pt (1/2) (1/2), pt (1/2) (1/2), pt (1/2) (1/2),
      pt (1/2) (1/2), pt (1/2) (1/2), pt (1/2) (1/2), pt (1/2) (1/2),
      pt (1/2) (1/2), pt (1/2) (1/2), pt (1/2) (1/2), pt (1/2) (1/2),
      pt (1/2) (1/2), pt (1/2) (1/2), pt (1/2) (1/2), pt (1/2) (1/2)]"

definition pose_fist :: "NormalizedLandmark list" where
  "pose_fist =
     [pt 0 0, pt (3/5) 0, pt 0 (4/5), pt 0 0, pt 0 (8/25),
      pt 0 0, pt 0 0, pt 0 0, pt 0 0,
      pt 0 0, pt 0 0, pt 0 0, pt 0 0,
      pt 0 0, pt 0 0, pt 0 0, pt 0 0,
      pt 0 0, pt 0 0, pt 0 0, pt 0 0]"

section \<open>The per-frame gesture path (HandDetector.tsx, both versions)\<close>

text \<open>
  \<^verbatim>\<open>const { label, metrics } = classifySign(landmarks); setMetrics(metrics);
  setGesture(stableGesture(label));\<close> The path is parameterised by the classifier that the
  import \<^verbatim>\<open>../utils/classifySign\<close> resolves to; an exception of the classifier leaves the
  buffer as it was.
\<close>

definition gesture_path ::
  "(NormalizedLandmark list \<Rightarrow> error + (string \<times> SignMetrics)) \<Rightarrow>
   NormalizedLandmark list \<Rightarrow> string list \<Rightarrow> (error + string) \<times> string list" where
  "gesture_path classifier landmarks buf =
     (case classifier landmarks of
        Inl e \<Rightarrow> (Inl e, buf)
      | Inr (label, metrics) \<Rightarrow> stableGesture label 5 buf)"

section \<open>The newer classifier copy\<close>

text \<open>
  The sources hold a second, newer \<^verbatim>\<open>classifySign\<close>. Its geometry is the older copy's, line
  for line (\<^verbatim>\<open>dist\<close>, the bounding box, \<^verbatim>\<open>scale\<close>, \<^verbatim>\<open>norm\<close>, \<^verbatim>\<open>fartherThan\<close>, \<^verbatim>\<open>bent\<close>, the gaps,
  \<^verbatim>\<open>cv\<close>, \<^verbatim>\<open>v\<close> and \<^verbatim>\<open>cosIM\<close>), so the model uses the same functions. It differs in the thumb
  thresholds, in the table \<^verbatim>\<open>T\<close> and in the decision list.
\<close>

definition THUMB_OUT_HARD :: real where "THUMB_OUT_HARD = 33 / 100"
definition THUMB_OUT_SOFT :: real where "THUMB_OUT_SOFT = 31 / 100"
definition THUMB_ALONG :: real where "THUMB_ALONG = 28 / 100"

text \<open>
  The metrics bundle of the newer copy: \<^verbatim>\<open>thumbOut: thumbOutHard\<close>, and
  \<^verbatim>\<open>spockRatio = gapMR / Math.max(pairAvg, 1e-6)\<close>.
\<close>

definition compute_metrics_v2 :: "NormalizedLandmark list \<Rightarrow> SignMetrics" where
  "compute_metrics_v2 landmarks =
     (let indexExt' = fartherThan landmarks TIP_i PIP_i;
          middleExt' = fartherThan landmarks TIP_m PIP_m;
          ringExt' = fartherThan landmarks TIP_r PIP_r;
          pinkyExt' = fartherThan landmarks TIP_p PIP_p;
          extendedCount' = of_bool indexExt' + of_bool middleExt' + of_bool ringExt' + of_bool pinkyExt';
          thumbToIndexMCP' = norm_scaled landmarks (dist_lm landmarks TIP_t INDEX_MCP);
          thumbOutHard = (thumbToIndexMCP' > THUMB_OUT_HARD);
          thumbAlong' = (thumbToIndexMCP' < THUMB_ALONG);
          gapIM' = norm_scaled landmarks (dist_lm landmarks TIP_i TIP_m);
          gapMR' = norm_scaled landmarks (dist_lm landmarks TIP_m TIP_r);
          gapRP' = norm_scaled landmarks (dist_lm landmarks TIP_r TIP_p);
          pairAvg = (gapIM' + gapRP') / 2;
          vi = v_dir landmarks TIP_i PIP_i;
          vm = v_dir landmarks TIP_m PIP_m
      in \<lparr> gapIM = gapIM', gapMR = gapMR', gapRP = gapRP',
           spockRatio = gapMR' / max pairAvg eps,
           cv = cv_of gapIM' gapMR' gapRP',
           thumbToIndexMCP = thumbToIndexMCP',
           thumbOut = thumbOutHard,
           thumbAlong = thumbAlong',
           indexExt = indexExt', middleExt = middleExt', ringExt = ringExt', pinkyExt = pinkyExt',
           extendedCount = extendedCount',
           cosIM = clamp (fst vi * fst vm + snd vi * snd vm) (-1) 1 \<rparr>)"

text \<open>
  \<^verbatim>\<open>thumbOutSoft = thumbToIndexMCP > THUMB_OUT_SOFT\<close> is a local variable of the newer copy
  and not a field of the bundle; it is computed from the field \<^verbatim>\<open>thumbToIndexMCP\<close>. The
  field \<^verbatim>\<open>thumbOut\<close> holds \<^verbatim>\<open>thumbOutHard\<close>.
\<close>

definition thumbOutSoft :: "SignMetrics \<Rightarrow> bool" where
  "thumbOutSoft m \<longleftrightarrow> thumbToIndexMCP m > THUMB_OUT_SOFT"

text \<open>The table \<^verbatim>\<open>T\<close> of the newer copy.\<close>

definition T2_scissorsIMMaxGap :: real where "T2_scissorsIMMaxGap = 28 / 100"
definition T2_scissorsCosMin :: real where "T2_scissorsCosMin = 80 / 100"
definition T2_paperCV :: real where "T2_paperCV = 35 / 100"
definition T2_spockRatio :: real where "T2_spockRatio = 145 / 100"
definition T2_spockGapMR :: real where "T2_spockGapMR = 18 / 100"
definition T2_pairTight :: real where "T2_pairTight = 22 / 100"

text \<open>
  The conditions of the newer decision list, one per \<^verbatim>\<open>if\<close> and in the order of the
  source: scissors, spock (primary), spock (soft), paper (strict), paper (loose fallback),
  rock, lizard and the two tie-breakers.
\<close>

definition rule_scissors_v2 :: "NormalizedLandmark list \<Rightarrow> SignMetrics \<Rightarrow> bool" where
  "rule_scissors_v2 landmarks m \<longleftrightarrow>
     indexExt m \<and> middleExt m \<and> \<not> ringExt m \<and> \<not> pinkyExt m \<and>
     bent landmarks TIP_r PIP_r \<and> bent landmarks TIP_p PIP_p \<and>
     gapIM m \<le> T2_scissorsIMMaxGap \<and> cosIM m \<ge> T2_scissorsCosMin"

definition rule_spock_v2 :: "SignMetrics \<Rightarrow> bool" where
  "rule_spock_v2 m \<longleftrightarrow>
     extendedCount m = 4 \<and> spockRatio m > T2_spockRatio \<and>
     gapIM m < T2_pairTight \<and> gapRP m < T2_pairTight \<and>
     gapMR m > T2_spockGapMR \<and> thumbOut m"

definition rule_spock_soft_v2 :: "SignMetrics \<Rightarrow> bool" where
  "rule_spock_soft_v2 m \<longleftrightarrow>
     extendedCount m = 4 \<and>
     ((spockRatio m > T2_spockRatio \<and> gapMR m > T2_spockGapMR - 2 / 100) \<or>
      spockRatio m > 170 / 100) \<and>
     gapIM m < T2_pairTight + 2 / 100 \<and> gapRP m < T2_pairTight + 2 / 100 \<and>
     thumbOutSoft m"

definition rule_paper_v2 :: "SignMetrics \<Rightarrow> bool" where
  "rule_paper_v2 m \<longleftrightarrow>
     extendedCount m = 4 \<and> thumbAlong m \<and> spockRatio m \<le> 135 / 100 \<and> cv m < T2_paperCV \<and>
     gapIM m < 30 / 100 \<and> gapMR m < 30 / 100 \<and> gapRP m < 30 / 100"

definition rule_paper_loose_v2 :: "SignMetrics \<Rightarrow> bool" where
  "rule_paper_loose_v2 m \<longleftrightarrow>
     (let maxGap = max (gapIM m) (max (gapMR m) (gapRP m));
          minGap = min (gapIM m) (min (gapMR m) (gapRP m))
      in extendedCount m = 4 \<and> thumbAlong m \<and> spockRatio m \<le> 125 / 100 \<and>
         maxGap \<le> 32 / 100 \<and> maxGap - minGap \<le> 18 / 100)"

definition rule_rock_v2 :: "SignMetrics \<Rightarrow> bool" where
  "rule_rock_v2 m \<longleftrightarrow> extendedCount m \<le> 1 \<and> \<not> thumbOutSoft m"

definition rule_lizard_v2 :: "SignMetrics \<Rightarrow> bool" where
  "rule_lizard_v2 m \<longleftrightarrow>
     thumbOutSoft m \<and> \<not> middleExt m \<and> \<not> ringExt m \<and> (indexExt m \<or> pinkyExt m)"

definition tie_spock_v2 :: "SignMetrics \<Rightarrow> bool" where
  "tie_spock_v2 m \<longleftrightarrow>
     extendedCount m = 4 \<and> thumbOutSoft m \<and> spockRatio m > 135 / 100 \<and> gapMR m > 16 / 100"

definition tie_lizard_v2 :: "SignMetrics \<Rightarrow> bool" where
  "tie_lizard_v2 m \<longleftrightarrow> extendedCount m \<le> 2 \<and> thumbOutSoft m"

definition decide_v2 :: "NormalizedLandmark list \<Rightarrow> SignMetrics \<Rightarrow> string" where
  "decide_v2 landmarks m =
     (if rule_scissors_v2 landmarks m then ''scissors''
      else if rule_spock_v2 m then ''spock''
      else if rule_spock_soft_v2 m then ''spock''
      else if rule_paper_v2 m then ''paper''
      else if rule_paper_loose_v2 m then ''paper''
      else if rule_rock_v2 m then ''rock''
      else if rule_lizard_v2 m then ''lizard''
      else if tie_spock_v2 m then ''spock''
      else if tie_lizard_v2 m then ''lizard''
      else ''unknown'')"

text \<open>
  The newer \<^verbatim>\<open>classifySign\<close>. Like the older copy it reads \<^verbatim>\<open>landmarks[20].x\<close> on every call
  and no index above 20.
\<close>

definition classifySign_v2 :: "NormalizedLandmark list \<Rightarrow> error + (string \<times> SignMetrics)" where
  "classifySign_v2 landmarks =
     (if length landmarks < 21 then Inl TypeError
      else let metrics = compute_metrics_v2 landmarks
           in Inr (decide_v2 landmarks metrics, metrics))"

section \<open>Properties of the round outcome\<close>

text \<open>
  C10. \<open>decideOutcome\<close> is a strict tournament on the five gestures: a gesture ties with
  itself, and for two distinct gestures the player wins one way round exactly when the
  computer wins the other way round, and neither pairing is a tie.
\<close>

theorem decideOutcome_tournament:
  "decideOutcome g g = Tie \<and>
   (g1 \<noteq> g2 \<longrightarrow>
      (decideOutcome g1 g2 = Player \<longleftrightarrow> decideOutcome g2 g1 = Computer) \<and>
      decideOutcome g1 g2 \<noteq> Tie \<and> decideOutcome g2 g1 \<noteq> Tie)"
  by (cases g1; cases g2) (simp_all add: decideOutcome_def)

theorem decideOutcome_tournament_witness:
  "decideOutcome Rock Rock = Tie \<and> Rock \<noteq> Lizard \<and>
   decideOutcome Rock Lizard = Player \<and> decideOutcome Lizard Rock = Computer"
  using decideOutcome_tournament [of Rock Rock Lizard]
  by (simp add: decideOutcome_def)

section \<open>Properties of the stabilizer\<close>

subsection \<open>The buffer\<close>

lemma push_shift_length: "length buf \<le> n \<Longrightarrow> 0 < n \<Longrightarrow> length (push_shift l n buf) \<le> n"
  by (auto simp: push_shift_def Let_def)

lemma push_shift_nonempty: "0 < n \<Longrightarrow> push_shift l n buf \<noteq> []"
  by (cases buf) (auto simp: push_shift_def Let_def)

lemma pushes_Cons:
  "pushes (l # ls) n buf =
     (most_frequent (push_shift l n buf) # fst (pushes ls n (push_shift l n buf)),
      snd (pushes ls n (push_shift l n buf)))"
  by (simp add: stableGesture_def Let_def case_prod_beta)

lemma pushes_buffer:
  "length buf \<le> n \<Longrightarrow> 0 < n \<Longrightarrow>
   snd (pushes ls n buf) = drop (length buf + length ls - n) (buf @ ls)"
proof (induction ls arbitrary: buf)
  case Nil
  then show ?case by simp
next
  case (Cons l ls)
  let ?b = "push_shift l n buf"
  have len: "length ?b \<le> n" using Cons.prems by (rule push_shift_length)
  have "snd (pushes (l # ls) n buf) = snd (pushes ls n ?b)" by (simp add: pushes_Cons del: pushes.simps)
  also have "\<dots> = drop (length ?b + length ls - n) (?b @ ls)"
    using len Cons.prems(2) by (rule Cons.IH)
  also have "\<dots> = drop (length buf + length (l # ls) - n) (buf @ l # ls)"
  proof (cases "length buf < n")
    case True
    then show ?thesis by (simp add: push_shift_def Let_def)
  next
    case False
    with Cons.prems have n: "n = length buf" by simp
    with Cons.prems obtain x xs where buf: "buf = x # xs" by (cases buf) auto
    show ?thesis by (simp add: n buf push_shift_def Let_def)
  qed
  finally show ?case .
qed

lemma pushes_snoc:
  "pushes (ls @ [l]) n buf =
     (fst (pushes ls n buf) @ [most_frequent (push_shift l n (snd (pushes ls n buf)))],
      push_shift l n (snd (pushes ls n buf)))"
  by (induction ls arbitrary: buf) (simp_all add: pushes_Cons del: pushes.simps(2))

lemma length_fst_pushes: "length (fst (pushes ls n buf)) = length ls"
  by (induction ls arbitrary: buf) (simp_all add: pushes_Cons del: pushes.simps(2))


subsection \<open>The frequency table\<close>

lemma set_first_seen: "set (first_seen xs) = set xs"
  by (induction xs) auto

lemma distinct_first_seen: "distinct (first_seen xs)"
  by (induction xs) (auto simp: set_first_seen)

lemma freq_incr_new:
  "l \<notin> fst ` set kvs \<Longrightarrow> freq_incr l kvs = kvs @ [(l, 1)]"
  by (induction l kvs rule: freq_incr.induct) auto

lemma freq_incr_old:
  "l \<in> fst ` set kvs \<Longrightarrow> distinct (map fst kvs) \<Longrightarrow>
   freq_incr l kvs = map (\<lambda>e. (fst e, if fst e = l then snd e + 1 else snd e)) kvs"
proof (induction l kvs rule: freq_incr.induct)
  case (1 l)
  then show ?case by simp
next
  case (2 l k c kvs)
  show ?case
  proof (cases "k = l")
    case True
    with "2.prems" have "l \<notin> fst ` set kvs" by auto
    then have "map (\<lambda>e. (fst e, if fst e = l then snd e + 1 else snd e)) kvs = kvs"
      by (induction kvs) auto
    with True show ?thesis by simp
  next
    case False
    with "2.prems" "2.IH" show ?thesis by auto
  qed
qed

lemma fold_freq_incr:
  "distinct (map fst kvs) \<Longrightarrow>
   fold freq_incr b kvs =
     map (\<lambda>e. (fst e, snd e + count_list b (fst e))) kvs
     @ map (\<lambda>k. (k, count_list b k)) (filter (\<lambda>l. l \<notin> fst ` set kvs) (first_seen b))"
proof (induction b arbitrary: kvs)
  case Nil
  then show ?case by simp
next
  case (Cons x xs)
  show ?case
  proof (cases "x \<in> fst ` set kvs")
    case True
    let ?kvs = "map (\<lambda>e. (fst e, if fst e = x then snd e + 1 else snd e)) kvs"
    have upd: "freq_incr x kvs = ?kvs" using True Cons.prems by (rule freq_incr_old)
    have keys: "map fst ?kvs = map fst kvs" by (simp add: comp_def)
    then have keyset: "fst ` set ?kvs = fst ` set kvs" by (metis list.set_map)
    have d: "distinct (map fst ?kvs)" using Cons.prems by (simp only: keys)
    have "fold freq_incr (x # xs) kvs = fold freq_incr xs ?kvs" by (simp add: upd)
    also have "\<dots> = map (\<lambda>e. (fst e, snd e + count_list xs (fst e))) ?kvs
       @ map (\<lambda>k. (k, count_list xs k)) (filter (\<lambda>l. l \<notin> fst ` set ?kvs) (first_seen xs))"
      using d by (rule Cons.IH)
    also have "map (\<lambda>e. (fst e, snd e + count_list xs (fst e))) ?kvs
       = map (\<lambda>e. (fst e, snd e + count_list (x # xs) (fst e))) kvs"
      by (simp add: comp_def)
    also have "map (\<lambda>k. (k, count_list xs k)) (filter (\<lambda>l. l \<notin> fst ` set ?kvs) (first_seen xs))
       = map (\<lambda>k. (k, count_list (x # xs) k)) (filter (\<lambda>l. l \<notin> fst ` set kvs) (first_seen (x # xs)))"
    proof -
      have "filter (\<lambda>l. l \<notin> fst ` set kvs) (first_seen (x # xs))
          = filter (\<lambda>l. l \<notin> fst ` set kvs) (first_seen xs)"
        using True by (auto simp: filter_filter intro: filter_cong)
      moreover have "map (\<lambda>k. (k, count_list xs k)) (filter (\<lambda>l. l \<notin> fst ` set kvs) (first_seen xs))
          = map (\<lambda>k. (k, count_list (x # xs) k)) (filter (\<lambda>l. l \<notin> fst ` set kvs) (first_seen xs))"
        using True by (intro map_cong refl) auto
      ultimately show ?thesis by (simp only: keyset)
    qed
    finally show ?thesis .
  next
    case False
    let ?kvs = "kvs @ [(x, 1)]"
    have upd: "freq_incr x kvs = ?kvs" using False by (rule freq_incr_new)
    have d: "distinct (map fst ?kvs)" using Cons.prems False by simp
    have "fold freq_incr (x # xs) kvs = fold freq_incr xs ?kvs" by (simp add: upd)
    also have "\<dots> = map (\<lambda>e. (fst e, snd e + count_list xs (fst e))) ?kvs
       @ map (\<lambda>k. (k, count_list xs k)) (filter (\<lambda>l. l \<notin> fst ` set ?kvs) (first_seen xs))"
      using d by (rule Cons.IH)
    also have "\<dots> = map (\<lambda>e. (fst e, snd e + count_list (x # xs) (fst e))) kvs
       @ map (\<lambda>k. (k, count_list (x # xs) k)) (filter (\<lambda>l. l \<notin> fst ` set kvs) (first_seen (x # xs)))"
    proof -
      have a: "map (\<lambda>e. (fst e, snd e + count_list xs (fst e))) ?kvs
          = map (\<lambda>e. (fst e, snd e + count_list (x # xs) (fst e))) kvs @ [(x, count_list (x # xs) x)]"
        using False by (auto intro: map_cong)
      have "filter (\<lambda>l. l \<notin> fst ` set ?kvs) (first_seen xs)
          = filter (\<lambda>l. l \<notin> fst ` set kvs) (filter (\<lambda>y. y \<noteq> x) (first_seen xs))"
        by (auto simp: filter_filter intro: filter_cong)
      moreover have "map (\<lambda>k. (k, count_list xs k)) (filter (\<lambda>l. l \<notin> fst ` set kvs) (filter (\<lambda>y. y \<noteq> x) (first_seen xs)))
          = map (\<lambda>k. (k, count_list (x # xs) k)) (filter (\<lambda>l. l \<notin> fst ` set kvs) (filter (\<lambda>y. y \<noteq> x) (first_seen xs)))"
        by (intro map_cong refl) auto
      ultimately have b: "map (\<lambda>k. (k, count_list xs k)) (filter (\<lambda>l. l \<notin> fst ` set ?kvs) (first_seen xs))
          = map (\<lambda>k. (k, count_list (x # xs) k)) (filter (\<lambda>l. l \<notin> fst ` set kvs) (filter (\<lambda>y. y \<noteq> x) (first_seen xs)))"
        by simp
      show ?thesis unfolding a b using False by simp
    qed
    finally show ?thesis .
  qed
qed

lemma tally_first_seen: "tally b = map (\<lambda>k. (k, count_list b k)) (first_seen b)"
  by (simp add: tally_def fold_freq_incr)


lemma first_seen_append:
  "first_seen (xs @ ys) = first_seen xs @ filter (\<lambda>y. y \<notin> set xs) (first_seen ys)"
  by (induction xs) (auto simp: filter_filter set_first_seen intro!: filter_cong)

lemma keys_tally: "fst ` set (tally b) = set b"
  by (simp add: tally_first_seen set_first_seen image_image)

lemma label_not_index: "l \<in> set LABELS \<Longrightarrow> \<not> is_array_index l"
  by (auto simp: LABELS_def is_array_index_def is_digit_def)

subsection \<open>The first entry after the stable sort\<close>

lemma Object_entries_plain:
  "\<forall>e\<in>set obj. \<not> is_array_index (fst e) \<Longrightarrow> Object_entries obj = obj"
  by (simp add: Object_entries_def filter_empty_conv)

lemma hd_insort_key:
  "hd (insort_key f x ys) = (if ys = [] \<or> f x \<le> f (hd ys) then x else hd ys)"
  by (cases ys) auto

lemma sort_key_nonempty: "xs \<noteq> [] \<Longrightarrow> sort_key f xs \<noteq> []"
  by (metis length_sort length_0_conv)

lemma hd_sort_key_first_min:
  fixes f :: "'a \<Rightarrow> int"
  assumes "xs \<noteq> []"
  shows "\<exists>pre post. xs = pre @ hd (sort_key f xs) # post
           \<and> (\<forall>y\<in>set pre. f (hd (sort_key f xs)) < f y)
           \<and> (\<forall>y\<in>set xs. f (hd (sort_key f xs)) \<le> f y)"
  using assms
proof (induction xs)
  case Nil
  then show ?case by simp
next
  case (Cons x xs)
  show ?case
  proof (cases "xs = []")
    case True
    have "[x] = [] @ x # []" by simp
    moreover have "\<forall>y\<in>set ([]::'a list). f x < f y" by simp
    ultimately have "\<exists>pre post. [x] = pre @ x # post \<and> (\<forall>y\<in>set pre. f x < f y)" by blast
    with True show ?thesis by simp
  next
    case False
    let ?h = "hd (sort_key f xs)"
    from False Cons.IH obtain pre post where
      xs: "xs = pre @ ?h # post" and pre: "\<forall>y\<in>set pre. f ?h < f y"
      and mn: "\<forall>y\<in>set xs. f ?h \<le> f y" by blast
    have ne: "sort_key f xs \<noteq> []" using False by (rule sort_key_nonempty)
    have hd: "hd (sort_key f (x # xs)) = (if f x \<le> f ?h then x else ?h)"
      using ne by (simp add: hd_insort_key)
    show ?thesis
    proof (cases "f x \<le> f ?h")
      case True
      with hd have h: "hd (sort_key f (x # xs)) = x" by simp
      have "x # xs = [] @ x # xs" by simp
      moreover have "\<forall>y\<in>set (x # xs). f x \<le> f y" using True mn by auto
      moreover have "\<forall>y\<in>set ([]::'a list). f x < f y" by simp
      ultimately show ?thesis unfolding h by blast
    next
      case False
      with hd have h: "hd (sort_key f (x # xs)) = ?h" by simp
      have "x # xs = (x # pre) @ ?h # post" using xs by simp
      moreover have "\<forall>y\<in>set (x # pre). f ?h < f y" using False pre by auto
      moreover have "\<forall>y\<in>set (x # xs). f ?h \<le> f y" using False mn by auto
      ultimately show ?thesis unfolding h by blast
    qed
  qed
qed

lemma split_at_first_unique:
  "xs @ r # ys = xs' @ r # ys' \<Longrightarrow> r \<notin> set xs \<Longrightarrow> r \<notin> set xs' \<Longrightarrow> xs = xs'"
proof (induction xs arbitrary: xs')
  case Nil
  then show ?case by (cases xs') auto
next
  case (Cons a xs)
  then show ?case by (cases xs') auto
qed

lemma most_frequent_first_max:
  assumes ne: "b \<noteq> []" and plain: "\<forall>l\<in>set b. \<not> is_array_index l"
  shows "\<exists>r pre post. most_frequent b = Inr r \<and> b = pre @ r # post \<and> r \<notin> set pre
           \<and> (\<forall>l\<in>set pre. count_list b l < count_list b r)
           \<and> (\<forall>l\<in>set b. count_list b l \<le> count_list b r)"
proof -
  define es where "es = map (\<lambda>k. (k, count_list b k)) (first_seen b)"
  define f where "f = (\<lambda>e::string \<times> nat. - int (snd e))"
  define h where "h = hd (sort_key f es)"
  define r where "r = fst h"
  have es_ne: "es \<noteq> []" using ne by (cases b) (simp_all add: es_def)
  have keys: "map fst es = first_seen b" by (simp add: es_def comp_def)
  have cnt: "snd e = count_list b (fst e)" if "e \<in> set es" for e
    using that by (auto simp: es_def)
  have entries: "Object_entries (tally b) = es"
    using plain by (simp add: tally_first_seen Object_entries_plain set_first_seen es_def)
  have "sort_key f es \<noteq> []" using es_ne by (rule sort_key_nonempty)
  then obtain t where "sort_key f es = h # t" by (cases "sort_key f es") (simp_all add: h_def)
  then have res: "most_frequent b = Inr r"
    by (simp add: most_frequent_def entries sort_by_count_desc_def f_def r_def)
  from hd_sort_key_first_min [OF es_ne, of f] obtain P Q where
    dec: "es = P @ h # Q" and before: "\<forall>y\<in>set P. f h < f y"
    and all: "\<forall>y\<in>set es. f h \<le> f y" unfolding h_def by blast
  have h_in: "h \<in> set es" by (simp add: dec)
  have h_snd: "snd h = count_list b r" using cnt [OF h_in] by (simp add: r_def)
  have "r \<in> set (map fst es)" using h_in unfolding r_def by (rule imageI [of h "set es" fst, simplified set_map [symmetric]])
  then have r_in: "r \<in> set b" by (simp add: keys set_first_seen)
  have mx: "\<forall>l\<in>set b. count_list b l \<le> count_list b r"
  proof
    fix l assume "l \<in> set b"
    then have "(l, count_list b l) \<in> set es" by (auto simp: es_def set_first_seen)
    with all have "f h \<le> f (l, count_list b l)" by blast
    with h_snd show "count_list b l \<le> count_list b r" by (simp add: f_def)
  qed
  from r_in obtain pre post where b: "b = pre @ r # post" and notin: "r \<notin> set pre"
    using split_list_first [of r b] by blast
  have "first_seen b = first_seen (pre @ r # post)" by (simp add: b)
  also have "\<dots> = first_seen pre @ r # filter (\<lambda>y. y \<notin> set pre) (filter (\<lambda>y. y \<noteq> r) (first_seen post))"
    using notin by (simp add: first_seen_append)
  finally have fs: "first_seen b = first_seen pre @ r # filter (\<lambda>y. y \<notin> set pre) (filter (\<lambda>y. y \<noteq> r) (first_seen post))" .
  have dk: "map fst es = map fst P @ r # map fst Q" by (simp add: dec r_def)
  have dist: "distinct (map fst P @ r # map fst Q)"
    using distinct_first_seen [of b] by (simp only: keys [symmetric] dk)
  have r1: "r \<notin> set (map fst P)" using dist by auto
  have r2: "r \<notin> set (first_seen pre)" using notin by (simp add: set_first_seen)
  have eq: "map fst P @ r # map fst Q
      = first_seen pre @ r # filter (\<lambda>y. y \<notin> set pre) (filter (\<lambda>y. y \<noteq> r) (first_seen post))"
    using fs keys dk by simp
  have P: "map fst P = first_seen pre"
    using eq r1 r2 by (rule split_at_first_unique)
  have "\<forall>l\<in>set pre. count_list b l < count_list b r"
  proof
    fix l assume "l \<in> set pre"
    then have "l \<in> set (map fst P)" by (simp add: P set_first_seen)
    then obtain e where e: "e \<in> set P" "fst e = l" by auto
    then have "e \<in> set es" by (simp add: dec)
    then have "snd e = count_list b l" using cnt e(2) by auto
    moreover from before e(1) have "f h < f e" by blast
    ultimately show "count_list b l < count_list b r" using h_snd by (simp add: f_def)
  qed
  with res b notin mx show ?thesis by blast
qed

lemma most_frequent_in:
  assumes "b \<noteq> []"
  shows "\<exists>x. most_frequent b = Inr x \<and> x \<in> set b"
proof -
  let ?es = "sort_by_count_desc (Object_entries (tally b))"
  have "set (Object_entries (tally b)) = set (tally b)"
    by (auto simp: Object_entries_def)
  then have "set ?es = set (tally b)"
    by (simp add: sort_by_count_desc_def)
  then have keys: "fst ` set ?es = set b"
    by (simp only: keys_tally)
  with assms obtain e es where es: "?es = e # es" by (cases ?es) auto
  with keys have "fst e \<in> set b" by (metis image_eqI list.set_intros(1))
  with es show ?thesis by (simp add: most_frequent_def)
qed

lemma most_frequent_single: "most_frequent [l, l, l, l, l] = Inr l"
  by (simp add: most_frequent_def tally_def Object_entries_def sort_by_count_desc_def)


subsection \<open>Claims about the stabilizer\<close>

text \<open>
  C4. From the empty history, pushing the labels \<open>a, b, a, b\<close> (two distinct labels of
  the classifier) with capacity 4 makes the fourth result \<open>a\<close>. In general, for a
  non-empty window \<open>w\<close> of labels the result \<open>r\<close> has the maximal count in \<open>w\<close>, and
  every label that occurs before the first occurrence of \<open>r\<close> has a strictly smaller
  count: among the labels of maximal count the one seen first, scanning from the oldest,
  wins. (\<^verbatim>\<open>Object.entries\<close> would list a key that is an array index, such as \<^verbatim>\<open>"1"\<close>,
  before the others whatever the order of arrival; no label is such a key.)
\<close>

theorem stableGesture_tie_first_seen:
  assumes "a \<in> set LABELS" and "b \<in> set LABELS" and "a \<noteq> b"
    and "w \<noteq> []" and "set w \<subseteq> set LABELS"
  shows "fst (pushes [a, b, a, b] 4 []) ! 3 = Inr a \<and>
         (\<exists>r pre post. most_frequent w = Inr r \<and> w = pre @ r # post \<and> r \<notin> set pre
            \<and> (\<forall>l\<in>set pre. count_list w l < count_list w r)
            \<and> (\<forall>l\<in>set w. count_list w l \<le> count_list w r))"
proof
  have "\<not> is_array_index a" and "\<not> is_array_index b"
    using assms(1,2) by (simp_all add: label_not_index)
  with assms(3) show "fst (pushes [a, b, a, b] 4 []) ! 3 = Inr a"
    by (simp add: stableGesture_def push_shift_def most_frequent_def tally_def
        Object_entries_def sort_by_count_desc_def Let_def)
next
  have "\<forall>l\<in>set w. \<not> is_array_index l"
    using assms(5) label_not_index by blast
  with assms(4) show "\<exists>r pre post. most_frequent w = Inr r \<and> w = pre @ r # post \<and> r \<notin> set pre
            \<and> (\<forall>l\<in>set pre. count_list w l < count_list w r)
            \<and> (\<forall>l\<in>set w. count_list w l \<le> count_list w r)"
    by (rule most_frequent_first_max)
qed

theorem stableGesture_tie_first_seen_witness:
  "''rock'' \<in> set LABELS \<and> ''paper'' \<in> set LABELS \<and> ''rock'' \<noteq> ''paper''
   \<and> [''spock'', ''paper'', ''rock'', ''rock'', ''paper''] \<noteq> []
   \<and> set [''spock'', ''paper'', ''rock'', ''rock'', ''paper''] \<subseteq> set LABELS
   \<and> fst (pushes [''rock'', ''paper'', ''rock'', ''paper''] 4 []) ! 3 = Inr ''rock''
   \<and> most_frequent [''spock'', ''paper'', ''rock'', ''rock'', ''paper''] = Inr ''paper''"
proof -
  have h: "''rock'' \<in> set LABELS" "''paper'' \<in> set LABELS" "''rock'' \<noteq> ''paper''"
    "[''spock'', ''paper'', ''rock'', ''rock'', ''paper''] \<noteq> []"
    "set [''spock'', ''paper'', ''rock'', ''rock'', ''paper''] \<subseteq> set LABELS"
    by (simp_all add: LABELS_def)
  have m: "most_frequent [''spock'', ''paper'', ''rock'', ''rock'', ''paper''] = Inr ''paper''"
    by (simp add: most_frequent_def tally_def Object_entries_def sort_by_count_desc_def
        is_array_index_def is_digit_def)
  from stableGesture_tie_first_seen [OF h] h m show ?thesis by blast
qed

text \<open>
  C6. Whatever labels the history holds (at most 5, as every history of the default
  capacity does), after five consecutive calls with the same label \<open>l\<close> the fifth result
  is \<open>l\<close>.
\<close>

theorem stableGesture_same_label_five_times:
  assumes "length h \<le> 5" and "set h \<subseteq> set LABELS" and "l \<in> set LABELS"
  shows "fst (pushes [l, l, l, l, l] 5 h) ! 4 = Inr l"
proof -
  have b: "snd (pushes [l, l, l, l, l] 5 h) = [l, l, l, l, l]"
    using assms(1) by (simp add: pushes_buffer del: pushes.simps)
  have "pushes ([l, l, l, l] @ [l]) 5 h =
     (fst (pushes [l, l, l, l] 5 h) @ [most_frequent (push_shift l 5 (snd (pushes [l, l, l, l] 5 h)))],
      push_shift l 5 (snd (pushes [l, l, l, l] 5 h)))"
    by (rule pushes_snoc)
  with b have "fst (pushes [l, l, l, l, l] 5 h)
      = fst (pushes [l, l, l, l] 5 h) @ [most_frequent [l, l, l, l, l]]"
    by (simp del: pushes.simps)
  moreover have "length (fst (pushes [l, l, l, l] 5 h)) = 4"
    by (simp add: length_fst_pushes del: pushes.simps)
  ultimately show ?thesis
    by (simp add: nth_append most_frequent_single del: pushes.simps)
qed

theorem stableGesture_same_label_five_times_witness:
  "length [''rock'', ''rock'', ''paper'', ''rock'', ''rock''] \<le> 5
   \<and> set [''rock'', ''rock'', ''paper'', ''rock'', ''rock''] \<subseteq> set LABELS
   \<and> ''spock'' \<in> set LABELS
   \<and> fst (pushes [''spock'', ''spock'', ''spock'', ''spock'', ''spock''] 5
          [''rock'', ''rock'', ''paper'', ''rock'', ''rock'']) ! 4 = Inr ''spock''"
proof -
  have h: "length [''rock'', ''rock'', ''paper'', ''rock'', ''rock''] \<le> 5"
    "set [''rock'', ''rock'', ''paper'', ''rock'', ''rock''] \<subseteq> set LABELS"
    "''spock'' \<in> set LABELS"
    by (simp_all add: LABELS_def)
  from stableGesture_same_label_five_times [OF h] h show ?thesis by blast
qed

text \<open>
  C8. The history starts empty. After any sequence \<open>ls\<close> of calls with labels and one more
  call with the label \<open>l\<close>, the history holds at most 5 labels, namely the last 5 that
  were pushed (all of them when fewer were pushed), the call returns a label, and that
  label is an element of the history. The first call returns its own argument.
\<close>

theorem stableGesture_history_invariant:
  assumes "set ls \<subseteq> set LABELS" and "l \<in> set LABELS"
  shows "(case pushes ls 5 [] of (rs, h) \<Rightarrow>
            case stableGesture l 5 h of (r, h') \<Rightarrow>
              length h' \<le> 5 \<and> h' = drop (length (ls @ [l]) - 5) (ls @ [l]) \<and>
              (\<exists>x. r = Inr x \<and> x \<in> set h'))
         \<and> stableGesture l 5 [] = (Inr l, [l])"
proof
  define h where "h = snd (pushes ls 5 [])"
  define h' where "h' = push_shift l 5 h"
  have "h' = snd (pushes (ls @ [l]) 5 [])"
    by (simp add: h'_def h_def pushes_snoc)
  then have h': "h' = drop (length (ls @ [l]) - 5) (ls @ [l])"
    by (simp add: pushes_buffer)
  then have len: "length h' \<le> 5" by simp
  have "h' \<noteq> []" unfolding h'_def by (rule push_shift_nonempty) simp
  then obtain x where "most_frequent h' = Inr x" "x \<in> set h'"
    using most_frequent_in by blast
  with h' len show "case pushes ls 5 [] of (rs, h) \<Rightarrow>
      case stableGesture l 5 h of (r, h') \<Rightarrow>
        length h' \<le> 5 \<and> h' = drop (length (ls @ [l]) - 5) (ls @ [l]) \<and>
        (\<exists>x. r = Inr x \<and> x \<in> set h')"
    by (simp add: case_prod_beta stableGesture_def Let_def flip: h_def h'_def)
next
  show "stableGesture l 5 [] = (Inr l, [l])"
    by (simp add: stableGesture_def push_shift_def most_frequent_def tally_def
        Object_entries_def sort_by_count_desc_def Let_def)
qed

theorem stableGesture_history_invariant_witness:
  "set [''rock'', ''rock'', ''paper'', ''spock'', ''lizard'', ''rock''] \<subseteq> set LABELS
   \<and> ''scissors'' \<in> set LABELS
   \<and> stableGesture ''scissors'' 5
        (snd (pushes [''rock'', ''rock'', ''paper'', ''spock'', ''lizard'', ''rock''] 5 []))
      = (Inr ''paper'', [''paper'', ''spock'', ''lizard'', ''rock'', ''scissors''])
   \<and> stableGesture ''scissors'' 5 [] = (Inr ''scissors'', [''scissors''])"
proof -
  have h: "set [''rock'', ''rock'', ''paper'', ''spock'', ''lizard'', ''rock''] \<subseteq> set LABELS"
    "''scissors'' \<in> set LABELS"
    by (simp_all add: LABELS_def)
  have e: "stableGesture ''scissors'' 5
        (snd (pushes [''rock'', ''rock'', ''paper'', ''spock'', ''lizard'', ''rock''] 5 []))
      = (Inr ''paper'', [''paper'', ''spock'', ''lizard'', ''rock'', ''scissors''])"
    by (simp add: stableGesture_def push_shift_def most_frequent_def tally_def
        Object_entries_def sort_by_count_desc_def Let_def is_array_index_def is_digit_def)
  from stableGesture_history_invariant [OF h] h e show ?thesis by simp
qed

section \<open>Properties of the classifier\<close>

subsection \<open>Arithmetic and the guarded denominators\<close>

lemmas landmark_ids =
  WRIST_def TIP_i_def TIP_m_def TIP_r_def TIP_p_def TIP_t_def
  PIP_i_def PIP_m_def PIP_r_def PIP_p_def INDEX_MCP_def

lemmas thresholds =
  T_scissorsIMMaxGap_def T_scissorsCosMin_def T_paperCV_def T_spockRatio_def
  T_spockGapMR_def T_pairTight_def

lemma hypot_nonneg: "0 \<le> hypot a b"
  by (simp add: hypot_def)

lemma hypot_0_right: "hypot a 0 = \<bar>a\<bar>"
  by (simp add: hypot_def)

lemma hypot_0_left: "hypot 0 b = \<bar>b\<bar>"
  by (simp add: hypot_def)

lemma hypot_pos: "0 < a \<Longrightarrow> 0 < hypot a b"
proof -
  assume "0 < a"
  then have "0 < a * a" by simp
  moreover have "0 \<le> b * b" by simp
  ultimately have "0 < a * a + b * b" by linarith
  then show ?thesis by (simp add: hypot_def)
qed

lemma hypot_3_4: "hypot (3/5) (4/5) = 1"
proof -
  have "(3/5) * (3/5) + (4/5) * (4/5) = (1::real)" by simp
  then show ?thesis by (simp add: hypot_def)
qed

lemma eps_pos: "0 < eps"
  by (simp add: eps_def)

lemma extent_ge_eps: "eps \<le> extent hi lo"
  by (cases hi; cases lo) simp_all

lemma scale_pos: "0 < scale lms"
proof -
  have "0 < extent (maxX lms) (minX lms)"
    using eps_pos extent_ge_eps [of "maxX lms" "minX lms"] by linarith
  then show ?thesis unfolding scale_def by (rule hypot_pos)
qed

lemma v_len_pos: "0 < v_len lms tip pip"
  using hypot_nonneg [of "lm_x (lms ! tip) - lm_x (lms ! pip)" "lm_y (lms ! tip) - lm_y (lms ! pip)"]
  using eps_pos by (auto simp: v_len_def Let_def less_le)

lemma pairAvg_floor_pos: "0 < pairAvg_floor a b"
  using eps_pos by (simp add: pairAvg_floor_def max_def)

lemma decide_label: "decide lms m \<in> set LABELS"
  by (simp add: decide_def LABELS_def)

lemma cv_of_guard: "0 < mean_gap a b c \<or> cv_of a b c = 1"
  by (simp add: cv_of_def Let_def)

subsection \<open>The concrete poses\<close>

lemma scale_pose_scissors: "scale pose_scissors = 1"
  by (simp add: scale_def pose_scissors_def pt_def minX_def maxX_def minY_def maxY_def eps_def hypot_3_4)

lemma scale_pose_two_fingers: "scale pose_two_fingers = 1"
  by (simp add: scale_def pose_two_fingers_def pt_def minX_def maxX_def minY_def maxY_def eps_def hypot_3_4)

lemma metrics_pose_two_fingers:
  "indexExt (compute_metrics pose_two_fingers)"
  "\<not> middleExt (compute_metrics pose_two_fingers)"
  "\<not> ringExt (compute_metrics pose_two_fingers)"
  "pinkyExt (compute_metrics pose_two_fingers)"
  "extendedCount (compute_metrics pose_two_fingers) = 2"
  "thumbToIndexMCP (compute_metrics pose_two_fingers) = 8/25"
  "\<not> thumbOut (compute_metrics pose_two_fingers)"
  "\<not> thumbAlong (compute_metrics pose_two_fingers)"
  by (simp_all add: compute_metrics_def Let_def fartherThan_def norm_scaled_def scale_pose_two_fingers
      dist_lm_def landmark_ids hypot_0_right hypot_0_left, simp_all add: pose_two_fingers_def pt_def hypot_0_right hypot_0_left)

lemma scale_pose_point: "scale pose_point = hypot eps eps"
  by (simp add: scale_def pose_point_def pt_def minX_def maxX_def minY_def maxY_def eps_pos less_imp_le max_absorb2)

lemma metrics_pose_scissors:
  "indexExt (compute_metrics pose_scissors)"
  "middleExt (compute_metrics pose_scissors)"
  "\<not> ringExt (compute_metrics pose_scissors)"
  "\<not> pinkyExt (compute_metrics pose_scissors)"
  "extendedCount (compute_metrics pose_scissors) = 2"
  "gapIM (compute_metrics pose_scissors) = 0"
  "cosIM (compute_metrics pose_scissors) = 1"
  "thumbOut (compute_metrics pose_scissors)"
  "bent pose_scissors TIP_r PIP_r"
  "bent pose_scissors TIP_p PIP_p"
  by (simp_all add: compute_metrics_def Let_def fartherThan_def bent_def norm_scaled_def
      scale_pose_scissors dist_lm_def v_dir_def v_len_def clamp_def landmark_ids,
      simp_all add: pose_scissors_def pt_def hypot_0_right hypot_0_left)

lemma classifySign_Inr:
  "21 \<le> length landmarks \<Longrightarrow>
   classifySign landmarks = Inr (decide landmarks (compute_metrics landmarks), compute_metrics landmarks)"
  by (simp add: classifySign_def Let_def)

subsection \<open>The bounding box under translation and scaling\<close>

lemma lower_Some: "lower v (Some m) = Some (min v m)"
  by (simp add: min_def)

lemma upper_Some: "upper v (Some m) = Some (max v m)"
  by (simp add: max_def)

lemma fold_lower_Some:
  "fold (\<lambda>lm m. lower (f lm) m) lms (Some a) = Some (fold min (map f lms) a)"
  by (induction lms arbitrary: a) (simp_all add: lower_Some)

lemma fold_upper_Some:
  "fold (\<lambda>lm m. upper (f lm) m) lms (Some a) = Some (fold max (map f lms) a)"
  by (induction lms arbitrary: a) (simp_all add: upper_Some)

lemma fold_lower_Min:
  assumes "lms \<noteq> []"
  shows "fold (\<lambda>lm m. lower (f lm) m) lms None = Some (Min (set (map f lms)))"
proof (cases lms)
  case Nil
  with assms show ?thesis by simp
next
  case (Cons a list)
  then show ?thesis
    using Min.set_eq_fold [of "f a" "map f list"] by (simp add: fold_lower_Some)
qed

lemma fold_upper_Max:
  assumes "lms \<noteq> []"
  shows "fold (\<lambda>lm m. upper (f lm) m) lms None = Some (Max (set (map f lms)))"
proof (cases lms)
  case Nil
  with assms show ?thesis by simp
next
  case (Cons a list)
  then show ?thesis
    using Max.set_eq_fold [of "f a" "map f list"] by (simp add: fold_upper_Some)
qed

lemma extent_bbox:
  assumes "lms \<noteq> []"
  shows "extent (maxX lms) (minX lms) = max (bbox_width lms) eps"
    and "extent (maxY lms) (minY lms) = max (bbox_height lms) eps"
  using assms
  by (simp_all add: maxX_def minX_def maxY_def minY_def fold_lower_Min fold_upper_Max
      bbox_width_def bbox_height_def)

lemma Min_affine:
  fixes xs :: "real list"
  assumes "xs \<noteq> []" and "0 \<le> k"
  shows "Min (set (map (\<lambda>v. k * v + t) xs)) = k * Min (set xs) + t"
proof -
  have "mono (\<lambda>v. k * v + t)" using assms(2) by (simp add: mono_def mult_left_mono)
  from mono_Min_commute [OF this, of "set xs"] assms(1) show ?thesis by simp
qed

lemma Max_affine:
  fixes xs :: "real list"
  assumes "xs \<noteq> []" and "0 \<le> k"
  shows "Max (set (map (\<lambda>v. k * v + t) xs)) = k * Max (set xs) + t"
proof -
  have "mono (\<lambda>v. k * v + t)" using assms(2) by (simp add: mono_def mult_left_mono)
  from mono_Max_commute [OF this, of "set xs"] assms(1) show ?thesis by simp
qed

lemma map_lm_transform:
  "map lm_x (map (transform k tx ty) lms) = map (\<lambda>v. k * v + tx) (map lm_x lms)"
  "map lm_y (map (transform k tx ty) lms) = map (\<lambda>v. k * v + ty) (map lm_y lms)"
  by (simp_all add: transform_def comp_def)

lemma bbox_transform:
  assumes "lms \<noteq> []" and "0 \<le> k"
  shows "bbox_width (map (transform k tx ty) lms) = k * bbox_width lms"
    and "bbox_height (map (transform k tx ty) lms) = k * bbox_height lms"
proof -
  have x: "map lm_x lms \<noteq> []" and y: "map lm_y lms \<noteq> []" using assms(1) by simp_all
  show "bbox_width (map (transform k tx ty) lms) = k * bbox_width lms"
    unfolding bbox_width_def map_lm_transform
    by (simp only: Min_affine [OF x assms(2)] Max_affine [OF x assms(2)]) (simp add: algebra_simps)
  show "bbox_height (map (transform k tx ty) lms) = k * bbox_height lms"
    unfolding bbox_height_def map_lm_transform
    by (simp only: Min_affine [OF y assms(2)] Max_affine [OF y assms(2)]) (simp add: algebra_simps)
qed

lemma hypot_scale: "hypot (k * a) (k * b) = \<bar>k\<bar> * hypot a b"
proof -
  have "k * a * (k * a) + k * b * (k * b) = (k * k) * (a * a + b * b)"
    by (simp add: algebra_simps)
  then show ?thesis by (simp add: hypot_def real_sqrt_mult)
qed

lemma hypot_eq_0: "hypot a b = 0 \<longleftrightarrow> a = 0 \<and> b = 0"
proof -
  have "a * a + b * b = 0 \<longleftrightarrow> a = 0 \<and> b = 0"
    by (simp add: sum_squares_eq_zero_iff)
  then show ?thesis by (simp add: hypot_def)
qed

lemma scale_transform:
  assumes "lms \<noteq> []" and "0 < k"
    and "eps \<le> bbox_width lms" and "eps \<le> bbox_height lms"
    and "eps \<le> k * bbox_width lms" and "eps \<le> k * bbox_height lms"
  shows "scale (map (transform k tx ty) lms) = k * scale lms"
proof -
  have k: "0 \<le> k" using assms(2) by simp
  have ne: "map (transform k tx ty) lms \<noteq> []" using assms(1) by simp
  have "scale (map (transform k tx ty) lms)
      = hypot (max (k * bbox_width lms) eps) (max (k * bbox_height lms) eps)"
    by (simp only: scale_def extent_bbox [OF ne] bbox_transform [OF assms(1) k])
  also have "\<dots> = hypot (k * bbox_width lms) (k * bbox_height lms)"
    using assms(5,6) by (simp add: max_absorb1)
  also have "\<dots> = k * hypot (bbox_width lms) (bbox_height lms)"
    using assms(2) by (simp add: hypot_scale)
  also have "hypot (bbox_width lms) (bbox_height lms) = scale lms"
    using assms(3,4) by (simp add: scale_def extent_bbox [OF assms(1)] max_absorb1)
  finally show ?thesis .
qed

lemma dist_lm_transform:
  assumes "a < length lms" and "b < length lms" and "0 < k"
  shows "dist_lm (map (transform k tx ty) lms) a b = k * dist_lm lms a b"
proof -
  have "lm_x (transform k tx ty (lms ! a)) - lm_x (transform k tx ty (lms ! b))
      = k * (lm_x (lms ! a) - lm_x (lms ! b))"
    and "lm_y (transform k tx ty (lms ! a)) - lm_y (transform k tx ty (lms ! b))
      = k * (lm_y (lms ! a) - lm_y (lms ! b))"
    by (simp_all add: transform_def algebra_simps)
  then show ?thesis using assms by (simp add: dist_lm_def hypot_scale)
qed

lemma v_dir_transform:
  assumes "a < length lms" and "b < length lms" and "0 < k"
  shows "v_dir (map (transform k tx ty) lms) a b = v_dir lms a b"
proof -
  define dx where "dx = lm_x (lms ! a) - lm_x (lms ! b)"
  define dy where "dy = lm_y (lms ! a) - lm_y (lms ! b)"
  have dx': "lm_x (map (transform k tx ty) lms ! a) - lm_x (map (transform k tx ty) lms ! b) = k * dx"
    and dy': "lm_y (map (transform k tx ty) lms ! a) - lm_y (map (transform k tx ty) lms ! b) = k * dy"
    using assms(1,2) by (simp_all add: transform_def algebra_simps dx_def dy_def)
  have len: "v_len lms a b = (if hypot dx dy = 0 then eps else hypot dx dy)"
    by (simp add: v_len_def Let_def dx_def dy_def)
  have len': "v_len (map (transform k tx ty) lms) a b = (if hypot dx dy = 0 then eps else k * hypot dx dy)"
    using assms(3) by (simp add: v_len_def Let_def dx' dy' hypot_scale)
  show ?thesis
  proof (cases "hypot dx dy = 0")
    case True
    then have "dx = 0" "dy = 0" by (simp_all add: hypot_eq_0)
    then show ?thesis
      by (simp add: v_dir_def dx' dy' len len' flip: dx_def dy_def)
  next
    case False
    then show ?thesis using assms(3)
      by (simp add: v_dir_def dx' dy' len len' flip: dx_def dy_def)
  qed
qed

lemma norm_scaled_transform:
  assumes "scale lms' = k * scale lms" and "0 < k"
  shows "norm_scaled lms' (k * v) = norm_scaled lms v"
  using assms by (simp add: norm_scaled_def)

lemma margin_transform:
  assumes "scale (map (transform k tx ty) lms) = k * scale lms" and "0 < k"
    and "a < length lms" and "b < length lms" and "c < length lms"
  shows "norm_scaled (map (transform k tx ty) lms)
           (dist_lm (map (transform k tx ty) lms) a c - dist_lm (map (transform k tx ty) lms) b c)
       = norm_scaled lms (dist_lm lms a c - dist_lm lms b c)"
proof -
  have "dist_lm (map (transform k tx ty) lms) a c - dist_lm (map (transform k tx ty) lms) b c
      = k * (dist_lm lms a c - dist_lm lms b c)"
    using assms(2-5) by (simp add: dist_lm_transform algebra_simps)
  then show ?thesis using assms(1,2) by (simp only: norm_scaled_transform)
qed

lemma gap_transform:
  assumes "scale (map (transform k tx ty) lms) = k * scale lms" and "0 < k"
    and "a < length lms" and "b < length lms"
  shows "norm_scaled (map (transform k tx ty) lms) (dist_lm (map (transform k tx ty) lms) a b)
       = norm_scaled lms (dist_lm lms a b)"
  using assms by (simp only: dist_lm_transform norm_scaled_transform)

lemma bbox_pose_two_fingers:
  "bbox_width pose_two_fingers = 3/5" "bbox_height pose_two_fingers = 4/5"
  by (simp_all add: bbox_width_def bbox_height_def pose_two_fingers_def pt_def)

lemma hypot_same: "hypot a a = \<bar>a\<bar> * sqrt 2"
proof -
  have "hypot a a = sqrt ((a * a) * 2)" by (simp add: hypot_def)
  also have "\<dots> = sqrt (a * a) * sqrt 2" by (rule real_sqrt_mult)
  also have "sqrt (a * a) = \<bar>a\<bar>" by simp
  finally show ?thesis .
qed

lemma sqrt2_gt: "8 / 7 < sqrt 2"
  by (rule real_less_rsqrt) (simp add: power2_eq_square)

lemma scale_shrunk: "scale (map (transform eps 0 0) pose_two_fingers) = eps * sqrt 2"
proof -
  have "scale (map (transform eps 0 0) pose_two_fingers) = hypot eps eps"
    by (simp add: scale_def pose_two_fingers_def pt_def transform_def minX_def maxX_def minY_def maxY_def eps_def)
  then show ?thesis using eps_pos by (simp add: hypot_same)
qed

lemma scale_pose_fist: "scale pose_fist = 1"
  by (simp add: scale_def pose_fist_def pt_def minX_def maxX_def minY_def maxY_def eps_def hypot_3_4)

lemma metrics_pose_fist:
  "\<not> indexExt (compute_metrics pose_fist)"
  "\<not> middleExt (compute_metrics pose_fist)"
  "\<not> ringExt (compute_metrics pose_fist)"
  "\<not> pinkyExt (compute_metrics pose_fist)"
  "extendedCount (compute_metrics pose_fist) = 0"
  "thumbToIndexMCP (compute_metrics pose_fist) = 8/25"
  "\<not> thumbOut (compute_metrics pose_fist)"
  by (simp_all add: compute_metrics_def Let_def fartherThan_def norm_scaled_def scale_pose_fist
      dist_lm_def landmark_ids, simp_all add: pose_fist_def pt_def hypot_0_right hypot_0_left)

subsection \<open>The newer copy\<close>

lemmas thresholds_v2 =
  THUMB_OUT_HARD_def THUMB_OUT_SOFT_def THUMB_ALONG_def
  T2_scissorsIMMaxGap_def T2_scissorsCosMin_def T2_paperCV_def T2_spockRatio_def
  T2_spockGapMR_def T2_pairTight_def

lemma compute_metrics_v2_fields:
  "gapIM (compute_metrics_v2 lms) = gapIM (compute_metrics lms)"
  "gapMR (compute_metrics_v2 lms) = gapMR (compute_metrics lms)"
  "gapRP (compute_metrics_v2 lms) = gapRP (compute_metrics lms)"
  "spockRatio (compute_metrics_v2 lms) = spockRatio (compute_metrics lms)"
  "cv (compute_metrics_v2 lms) = cv (compute_metrics lms)"
  "thumbToIndexMCP (compute_metrics_v2 lms) = thumbToIndexMCP (compute_metrics lms)"
  "thumbOut (compute_metrics_v2 lms) \<longleftrightarrow> thumbToIndexMCP (compute_metrics lms) > 33 / 100"
  "thumbAlong (compute_metrics_v2 lms) = thumbAlong (compute_metrics lms)"
  "indexExt (compute_metrics_v2 lms) = indexExt (compute_metrics lms)"
  "middleExt (compute_metrics_v2 lms) = middleExt (compute_metrics lms)"
  "ringExt (compute_metrics_v2 lms) = ringExt (compute_metrics lms)"
  "pinkyExt (compute_metrics_v2 lms) = pinkyExt (compute_metrics lms)"
  "extendedCount (compute_metrics_v2 lms) = extendedCount (compute_metrics lms)"
  "cosIM (compute_metrics_v2 lms) = cosIM (compute_metrics lms)"
  by (simp_all add: compute_metrics_v2_def compute_metrics_def Let_def pairAvg_floor_def
      max.commute thresholds_v2)

lemma classifySign_v2_Inr:
  "21 \<le> length landmarks \<Longrightarrow>
   classifySign_v2 landmarks
     = Inr (decide_v2 landmarks (compute_metrics_v2 landmarks), compute_metrics_v2 landmarks)"
  by (simp add: classifySign_v2_def Let_def)

lemma extendedCount_v2:
  "extendedCount (compute_metrics_v2 lms)
     = of_bool (indexExt (compute_metrics_v2 lms)) + of_bool (middleExt (compute_metrics_v2 lms))
       + of_bool (ringExt (compute_metrics_v2 lms)) + of_bool (pinkyExt (compute_metrics_v2 lms))"
  by (simp add: compute_metrics_v2_def Let_def)

lemma older_copy_two_fingers:
  "classifySign pose_two_fingers = Inr (''unknown'', compute_metrics pose_two_fingers)"
proof -
  note m = metrics_pose_two_fingers
  have "decide pose_two_fingers (compute_metrics pose_two_fingers) = ''unknown''"
    by (simp add: decide_def rule_scissors_def rule_spock_def rule_paper_def rule_rock_def
        rule_lizard_def tie_spock_def tie_lizard_def m)
  then show ?thesis by (simp add: classifySign_Inr pose_two_fingers_def)
qed

subsection \<open>Claims about the classifier\<close>

text \<open>
  C1. On every pose of 21 landmarks \<open>classifySign\<close> returns a result (it does not throw),
  and the label is one of \<^verbatim>\<open>rock\<close>, \<^verbatim>\<open>paper\<close>, \<^verbatim>\<open>scissors\<close>, \<^verbatim>\<open>lizard\<close>, \<^verbatim>\<open>spock\<close>,
  \<^verbatim>\<open>unknown\<close>. Every denominator of the computation is positive: the bounding-box scale,
  the floored pair average under \<^verbatim>\<open>spockRatio\<close>, and the lengths that divide the two
  direction vectors; the mean of the gaps divides only when it is positive, and \<^verbatim>\<open>cv\<close>
  is 1 otherwise. (In exact arithmetic; the witness is the degenerate pose with all
  landmarks at one point.)
\<close>

theorem classifySign_total:
  assumes "length landmarks = 21"
  shows "\<exists>label m. classifySign landmarks = Inr (label, m) \<and> label \<in> set LABELS
           \<and> 0 < scale landmarks
           \<and> 0 < pairAvg_floor (gapIM m) (gapRP m)
           \<and> 0 < v_len landmarks TIP_i PIP_i \<and> 0 < v_len landmarks TIP_m PIP_m
           \<and> (0 < mean_gap (gapIM m) (gapMR m) (gapRP m) \<or> cv m = 1)"
proof -
  define m where "m = compute_metrics landmarks"
  have "classifySign landmarks = Inr (decide landmarks m, m)"
    using assms by (simp add: classifySign_Inr m_def)
  moreover have "cv m = cv_of (gapIM m) (gapMR m) (gapRP m)"
    by (simp add: m_def compute_metrics_def Let_def)
  then have "0 < mean_gap (gapIM m) (gapMR m) (gapRP m) \<or> cv m = 1"
    using cv_of_guard [of "gapIM m" "gapMR m" "gapRP m"] by simp
  ultimately show ?thesis
    using decide_label scale_pos pairAvg_floor_pos v_len_pos by blast
qed

theorem classifySign_total_witness:
  "length pose_point = 21
   \<and> classifySign pose_point = Inr (''rock'', compute_metrics pose_point)"
proof -
  have len: "length pose_point = 21" by (simp add: pose_point_def)
  have flags: "extendedCount (compute_metrics pose_point) = 0"
    "\<not> thumbOut (compute_metrics pose_point)"
    "\<not> indexExt (compute_metrics pose_point)"
    by (simp_all add: compute_metrics_def Let_def fartherThan_def norm_scaled_def
        dist_lm_def landmark_ids, simp_all add: pose_point_def pt_def hypot_0_right)
  then have "decide pose_point (compute_metrics pose_point) = ''rock''"
    by (simp add: decide_def rule_scissors_def rule_spock_def rule_paper_def rule_rock_def)
  with classifySign_total [OF len] len show ?thesis
    by (simp add: classifySign_Inr)
qed

text \<open>
  C2. In the newer copy, which has the soft outward threshold \<^verbatim>\<open>THUMB_OUT_SOFT = 0.31\<close>: if
  middle and ring are both not extended, index or pinky is extended and the normalized
  thumb-to-index-knuckle distance exceeds 0.31, the label is \<^verbatim>\<open>lizard\<close>. None of the
  earlier rules (scissors, the two spock rules, the two paper rules, rock) can match under
  these conditions, so that part of the claim needs no hypothesis. (The older copy has the
  single threshold 0.34 and returns \<^verbatim>\<open>unknown\<close> on \<open>pose_two_fingers\<close>, where the distance is
  0.32; see \<open>older_copy_two_fingers\<close> and C7.)
\<close>

theorem lizard_rule_soft_threshold:
  assumes "classifySign_v2 landmarks = Inr (label, m)"
    and "\<not> middleExt m" and "\<not> ringExt m" and "indexExt m \<or> pinkyExt m"
    and "thumbToIndexMCP m > 31 / 100"
  shows "label = ''lizard''
       \<and> \<not> rule_scissors_v2 landmarks m \<and> \<not> rule_spock_v2 m \<and> \<not> rule_spock_soft_v2 m
       \<and> \<not> rule_paper_v2 m \<and> \<not> rule_paper_loose_v2 m \<and> \<not> rule_rock_v2 m"
proof -
  from assms(1) have m: "m = compute_metrics_v2 landmarks" and l: "label = decide_v2 landmarks m"
    by (auto simp: classifySign_v2_def Let_def split: if_splits)
  have soft: "thumbOutSoft m" using assms(5) by (simp add: thumbOutSoft_def THUMB_OUT_SOFT_def)
  have "extendedCount m \<le> 2"
    using assms(2,3) unfolding m by (subst extendedCount_v2) simp
  then have not4: "extendedCount m \<noteq> 4" by simp
  have e: "\<not> rule_scissors_v2 landmarks m" "\<not> rule_spock_v2 m" "\<not> rule_spock_soft_v2 m"
    "\<not> rule_paper_v2 m" "\<not> rule_paper_loose_v2 m" "\<not> rule_rock_v2 m"
    using assms(2) not4 soft
    by (simp_all add: rule_scissors_v2_def rule_spock_v2_def rule_spock_soft_v2_def
        rule_paper_v2_def rule_paper_loose_v2_def rule_rock_v2_def Let_def)
  have "rule_lizard_v2 m" using soft assms(2-4) by (simp add: rule_lizard_v2_def)
  with e show ?thesis by (simp add: l decide_v2_def)
qed

theorem lizard_rule_soft_threshold_witness:
  "classifySign_v2 pose_two_fingers = Inr (''lizard'', compute_metrics_v2 pose_two_fingers)
   \<and> \<not> middleExt (compute_metrics_v2 pose_two_fingers)
   \<and> \<not> ringExt (compute_metrics_v2 pose_two_fingers)
   \<and> (indexExt (compute_metrics_v2 pose_two_fingers) \<or> pinkyExt (compute_metrics_v2 pose_two_fingers))
   \<and> thumbToIndexMCP (compute_metrics_v2 pose_two_fingers) = 32 / 100
   \<and> thumbToIndexMCP (compute_metrics_v2 pose_two_fingers) > 31 / 100"
proof -
  note m = metrics_pose_two_fingers compute_metrics_v2_fields
  have c: "classifySign_v2 pose_two_fingers
      = Inr (decide_v2 pose_two_fingers (compute_metrics_v2 pose_two_fingers),
             compute_metrics_v2 pose_two_fingers)"
    by (simp add: classifySign_v2_Inr pose_two_fingers_def)
  have h: "\<not> middleExt (compute_metrics_v2 pose_two_fingers)"
    "\<not> ringExt (compute_metrics_v2 pose_two_fingers)"
    "indexExt (compute_metrics_v2 pose_two_fingers) \<or> pinkyExt (compute_metrics_v2 pose_two_fingers)"
    "thumbToIndexMCP (compute_metrics_v2 pose_two_fingers) > 31 / 100"
    by (simp_all add: m)
  have d: "thumbToIndexMCP (compute_metrics_v2 pose_two_fingers) = 32 / 100"
    by (simp add: m)
  from lizard_rule_soft_threshold [OF c h] c h d show ?thesis by simp
qed

theorem metrics_invariance_counterexample:
  "length pose_two_fingers = 21
   \<and> eps \<le> bbox_width pose_two_fingers \<and> eps \<le> bbox_height pose_two_fingers
   \<and> 0 < eps
   \<and> \<not> thumbAlong (compute_metrics pose_two_fingers)
   \<and> thumbAlong (compute_metrics (map (transform eps 0 0) pose_two_fingers))
   \<and> classifySign (map (transform eps 0 0) pose_two_fingers) \<noteq> classifySign pose_two_fingers"
proof -
  let ?L = "map (transform eps 0 0) pose_two_fingers"
  have len: "length pose_two_fingers = 21" by (simp add: pose_two_fingers_def)
  have d: "dist_lm ?L TIP_t INDEX_MCP = eps * (8/25)"
    using eps_pos by (simp add: dist_lm_transform len landmark_ids)
      (simp add: dist_lm_def pose_two_fingers_def pt_def hypot_0_left)
  have "thumbToIndexMCP (compute_metrics ?L) = (8/25) / sqrt 2"
    using eps_pos by (simp add: compute_metrics_def Let_def norm_scaled_def d scale_shrunk)
  moreover have "(8/25) / sqrt 2 < (28/100 :: real)"
    using sqrt2_gt by (simp add: field_simps)
  ultimately have along: "thumbAlong (compute_metrics ?L)"
    by (simp add: compute_metrics_def Let_def)
  have "compute_metrics ?L \<noteq> compute_metrics pose_two_fingers"
    using along metrics_pose_two_fingers(8) by metis
  then have "classifySign ?L \<noteq> classifySign pose_two_fingers"
    using len by (simp add: classifySign_Inr)
  with len along metrics_pose_two_fingers(8) eps_pos show ?thesis
    by (simp add: bbox_pose_two_fingers eps_def)
qed

text \<open>
  C3, as amended. The claim asks for a bounding box of extent at least \<^verbatim>\<open>1e-6\<close> in each
  axis before the transformation only. A scaling by \<open>k < 1\<close> can shrink the box below
  \<^verbatim>\<open>1e-6\<close>; the floor then replaces the extent, the scale is no longer \<open>k\<close> times the old
  one, and the metrics change: scaling \<open>pose_two_fingers\<close> by \<^verbatim>\<open>1e-6\<close> turns
  \<^verbatim>\<open>thumbAlong\<close> from false to true. When the bounding box has extent at least \<^verbatim>\<open>1e-6\<close> in
  each axis both before and after the transformation, a translation by \<open>(tx, ty)\<close> and a
  uniform scaling by \<open>k > 0\<close> leave the whole result of \<open>classifySign\<close>, the label and every
  field of the metrics bundle, unchanged (in exact arithmetic).
\<close>

theorem metrics_invariant_unless_floored:
  assumes len: "length landmarks = 21" and k: "0 < k"
    and "eps \<le> bbox_width landmarks" and "eps \<le> bbox_height landmarks"
    and "eps \<le> k * bbox_width landmarks" and "eps \<le> k * bbox_height landmarks"
  shows "classifySign (map (transform k tx ty) landmarks) = classifySign landmarks"
proof -
  let ?L = "map (transform k tx ty) landmarks"
  have ne: "landmarks \<noteq> []" using len by auto
  have s: "scale ?L = k * scale landmarks"
    using ne k assms(3-6) by (rule scale_transform)
  have idx: "\<And>i. i \<le> 20 \<Longrightarrow> i < length landmarks" using len by simp
  have mar: "norm_scaled ?L (dist_lm ?L a WRIST - dist_lm ?L b WRIST)
      = norm_scaled landmarks (dist_lm landmarks a WRIST - dist_lm landmarks b WRIST)"
    if "a \<le> 20" "b \<le> 20" for a b
    using that by (intro margin_transform [OF s k] idx) (simp_all add: WRIST_def)
  have far: "fartherThan ?L a b = fartherThan landmarks a b"
    and bnt: "bent ?L a b = bent landmarks a b" if "a \<le> 20" "b \<le> 20" for a b
    using that by (simp_all only: fartherThan_def bent_def mar)
  have gap: "norm_scaled ?L (dist_lm ?L a b) = norm_scaled landmarks (dist_lm landmarks a b)"
    if "a \<le> 20" "b \<le> 20" for a b
    using that by (simp add: gap_transform [OF s k] idx)
  have dir: "v_dir ?L a b = v_dir landmarks a b" if "a \<le> 20" "b \<le> 20" for a b
    using that k by (simp add: v_dir_transform idx)
  have m: "compute_metrics ?L = compute_metrics landmarks"
    by (simp add: compute_metrics_def far gap dir landmark_ids)
  have "decide ?L (compute_metrics landmarks) = decide landmarks (compute_metrics landmarks)"
    by (simp add: decide_def rule_scissors_def bnt landmark_ids)
  with m show ?thesis using len by (simp add: classifySign_Inr)
qed

theorem metrics_invariant_unless_floored_witness:
  "length pose_two_fingers = 21 \<and> (0::real) < 2
   \<and> eps \<le> bbox_width pose_two_fingers \<and> eps \<le> bbox_height pose_two_fingers
   \<and> eps \<le> 2 * bbox_width pose_two_fingers \<and> eps \<le> 2 * bbox_height pose_two_fingers
   \<and> classifySign (map (transform 2 (1/10) (-3/10)) pose_two_fingers) = classifySign pose_two_fingers"
proof -
  have h: "length pose_two_fingers = 21" "(0::real) < 2"
    "eps \<le> bbox_width pose_two_fingers" "eps \<le> bbox_height pose_two_fingers"
    "eps \<le> 2 * bbox_width pose_two_fingers" "eps \<le> 2 * bbox_height pose_two_fingers"
    by (simp_all add: bbox_pose_two_fingers eps_def) (simp add: pose_two_fingers_def)
  from metrics_invariant_unless_floored [OF h, of "1/10" "-3/10"] h show ?thesis by blast
qed

text \<open>
  C5. When the metrics of a pose satisfy the scissors conditions (index and middle
  extended, ring and pinky not extended and bent, index-middle gap at most 0.28, direction
  cosine at least 0.80) and the conditions of the lizard tie-break (at most two fingers
  extended, thumb outward), the label is \<^verbatim>\<open>scissors\<close>, although the tie-break condition
  \<open>tie_lizard\<close> holds as well: the first matching rule wins.
\<close>

theorem scissors_first_match_wins:
  assumes "classifySign landmarks = Inr (label, m)"
    and "indexExt m" and "middleExt m" and "\<not> ringExt m" and "\<not> pinkyExt m"
    and "bent landmarks TIP_r PIP_r" and "bent landmarks TIP_p PIP_p"
    and "gapIM m \<le> 28 / 100" and "cosIM m \<ge> 80 / 100"
    and "extendedCount m \<le> 2" and "thumbOut m"
  shows "label = ''scissors'' \<and> tie_lizard m"
proof -
  from assms(1) have l: "label = decide landmarks m"
    by (auto simp: classifySign_def Let_def split: if_splits)
  have "rule_scissors landmarks m"
    using assms(2-9) by (simp add: rule_scissors_def thresholds)
  then show ?thesis using assms(10,11) by (simp add: l decide_def tie_lizard_def)
qed

theorem scissors_first_match_wins_witness:
  "classifySign pose_scissors = Inr (''scissors'', compute_metrics pose_scissors)
   \<and> indexExt (compute_metrics pose_scissors) \<and> middleExt (compute_metrics pose_scissors)
   \<and> \<not> ringExt (compute_metrics pose_scissors) \<and> \<not> pinkyExt (compute_metrics pose_scissors)
   \<and> bent pose_scissors TIP_r PIP_r \<and> bent pose_scissors TIP_p PIP_p
   \<and> gapIM (compute_metrics pose_scissors) \<le> 28 / 100
   \<and> cosIM (compute_metrics pose_scissors) \<ge> 80 / 100
   \<and> extendedCount (compute_metrics pose_scissors) \<le> 2
   \<and> thumbOut (compute_metrics pose_scissors)
   \<and> tie_lizard (compute_metrics pose_scissors)"
proof -
  note m = metrics_pose_scissors
  have c: "classifySign pose_scissors
      = Inr (decide pose_scissors (compute_metrics pose_scissors), compute_metrics pose_scissors)"
    by (simp add: classifySign_Inr pose_scissors_def)
  have h: "indexExt (compute_metrics pose_scissors)" "middleExt (compute_metrics pose_scissors)"
    "\<not> ringExt (compute_metrics pose_scissors)" "\<not> pinkyExt (compute_metrics pose_scissors)"
    "bent pose_scissors TIP_r PIP_r" "bent pose_scissors TIP_p PIP_p"
    "gapIM (compute_metrics pose_scissors) \<le> 28 / 100"
    "cosIM (compute_metrics pose_scissors) \<ge> 80 / 100"
    "extendedCount (compute_metrics pose_scissors) \<le> 2"
    "thumbOut (compute_metrics pose_scissors)"
    by (simp_all add: m)
  from scissors_first_match_wins [OF c h] c h show ?thesis by simp
qed

text \<open>
  C9. In the metrics bundle that \<open>classifySign\<close> returns, \<^verbatim>\<open>thumbOut\<close> and \<^verbatim>\<open>thumbAlong\<close>
  are never both true: \<^verbatim>\<open>thumbOut\<close> holds exactly when the normalized thumb-to-index-knuckle
  distance exceeds 0.34 and \<^verbatim>\<open>thumbAlong\<close> exactly when it is below 0.28, and for a
  distance in the band from 0.28 to 0.34 both are false.
\<close>

theorem thumbOut_thumbAlong_exclusive:
  assumes "classifySign landmarks = Inr (label, m)"
  shows "\<not> (thumbOut m \<and> thumbAlong m)
         \<and> (thumbOut m \<longleftrightarrow> thumbToIndexMCP m > 34 / 100)
         \<and> (thumbAlong m \<longleftrightarrow> thumbToIndexMCP m < 28 / 100)
         \<and> (28 / 100 \<le> thumbToIndexMCP m \<and> thumbToIndexMCP m \<le> 34 / 100
              \<longrightarrow> \<not> thumbOut m \<and> \<not> thumbAlong m)"
proof -
  from assms have m: "m = compute_metrics landmarks"
    by (auto simp: classifySign_def Let_def split: if_splits)
  show ?thesis by (auto simp: m compute_metrics_def Let_def)
qed

theorem thumbOut_thumbAlong_exclusive_witness:
  "classifySign pose_two_fingers = Inr (''unknown'', compute_metrics pose_two_fingers)
   \<and> 28 / 100 \<le> thumbToIndexMCP (compute_metrics pose_two_fingers)
   \<and> thumbToIndexMCP (compute_metrics pose_two_fingers) \<le> 34 / 100
   \<and> \<not> thumbOut (compute_metrics pose_two_fingers)
   \<and> \<not> thumbAlong (compute_metrics pose_two_fingers)"
proof -
  note m = metrics_pose_two_fingers
  have "decide pose_two_fingers (compute_metrics pose_two_fingers) = ''unknown''"
    by (simp add: decide_def rule_scissors_def rule_spock_def rule_paper_def rule_rock_def
        rule_lizard_def tie_spock_def tie_lizard_def m)
  then have c: "classifySign pose_two_fingers = Inr (''unknown'', compute_metrics pose_two_fingers)"
    by (simp add: classifySign_Inr pose_two_fingers_def)
  have band: "28 / 100 \<le> thumbToIndexMCP (compute_metrics pose_two_fingers)"
    "thumbToIndexMCP (compute_metrics pose_two_fingers) \<le> 34 / 100"
    by (simp_all add: m)
  from thumbOut_thumbAlong_exclusive [OF c] c band show ?thesis by simp
qed

section \<open>The two copies of the gesture path\<close>

text \<open>
  C7. The gesture path with the older classifier and the gesture path with the newer one
  differ: on \<open>pose_fist\<close> (no finger extended, thumb distance 0.32) and an empty history
  the older path returns \<^verbatim>\<open>rock\<close> and the newer path \<^verbatim>\<open>lizard\<close>, and on \<open>pose_two_fingers\<close>
  the older path returns \<^verbatim>\<open>unknown\<close> and the newer path \<^verbatim>\<open>lizard\<close>. The two tables \<^verbatim>\<open>T\<close>
  differ in \<^verbatim>\<open>paperCV\<close>, \<^verbatim>\<open>spockRatio\<close>, \<^verbatim>\<open>spockGapMR\<close> and \<^verbatim>\<open>pairTight\<close>, and the newer copy
  has a soft outward threshold below its hard one, both below the single threshold 0.34 of
  the older copy.
\<close>

theorem gesture_paths_differ:
  "gesture_path classifySign pose_fist [] = (Inr ''rock'', [''rock''])
   \<and> gesture_path classifySign_v2 pose_fist [] = (Inr ''lizard'', [''lizard''])
   \<and> gesture_path classifySign pose_fist [] \<noteq> gesture_path classifySign_v2 pose_fist []
   \<and> gesture_path classifySign pose_two_fingers [] = (Inr ''unknown'', [''unknown''])
   \<and> gesture_path classifySign_v2 pose_two_fingers [] = (Inr ''lizard'', [''lizard''])
   \<and> T_paperCV \<noteq> T2_paperCV \<and> T_spockRatio \<noteq> T2_spockRatio
   \<and> T_spockGapMR \<noteq> T2_spockGapMR \<and> T_pairTight \<noteq> T2_pairTight
   \<and> THUMB_OUT_SOFT < THUMB_OUT_HARD \<and> THUMB_OUT_HARD < 34 / 100"
proof -
  note m = metrics_pose_fist compute_metrics_v2_fields
  note m2 = metrics_pose_two_fingers compute_metrics_v2_fields
  have len: "length pose_fist = 21" "length pose_two_fingers = 21"
    by (simp_all add: pose_fist_def pose_two_fingers_def)
  have push: "stableGesture l 5 [] = (Inr l, [l])" for l
    by (simp add: stableGesture_def push_shift_def most_frequent_def tally_def
        Object_entries_def sort_by_count_desc_def Let_def)
  have "decide pose_fist (compute_metrics pose_fist) = ''rock''"
    by (simp add: decide_def rule_scissors_def rule_spock_def rule_paper_def rule_rock_def m)
  then have old: "gesture_path classifySign pose_fist [] = (Inr ''rock'', [''rock''])"
    using len by (simp add: gesture_path_def classifySign_Inr push)
  have "decide_v2 pose_fist (compute_metrics_v2 pose_fist) = ''lizard''"
    by (simp add: decide_v2_def rule_scissors_v2_def rule_spock_v2_def rule_spock_soft_v2_def
        rule_paper_v2_def rule_paper_loose_v2_def rule_rock_v2_def rule_lizard_v2_def
        tie_spock_v2_def tie_lizard_v2_def thumbOutSoft_def THUMB_OUT_SOFT_def Let_def m)
  then have new: "gesture_path classifySign_v2 pose_fist [] = (Inr ''lizard'', [''lizard''])"
    using len by (simp add: gesture_path_def classifySign_v2_Inr push)
  have old2: "gesture_path classifySign pose_two_fingers [] = (Inr ''unknown'', [''unknown''])"
    by (simp add: gesture_path_def older_copy_two_fingers push)
  have "decide_v2 pose_two_fingers (compute_metrics_v2 pose_two_fingers) = ''lizard''"
    by (simp add: decide_v2_def rule_scissors_v2_def rule_spock_v2_def rule_spock_soft_v2_def
        rule_paper_v2_def rule_paper_loose_v2_def rule_rock_v2_def rule_lizard_v2_def
        thumbOutSoft_def THUMB_OUT_SOFT_def Let_def m2)
  then have new2: "gesture_path classifySign_v2 pose_two_fingers [] = (Inr ''lizard'', [''lizard''])"
    using len by (simp add: gesture_path_def classifySign_v2_Inr push)
  from old new old2 new2 show ?thesis by (simp add: thresholds thresholds_v2)
qed

end
